theory Spec2Isabelle
  imports Complex_Main "HOL-Library.Word"
begin

unbundle bit_operations_syntax

section \<open>Data model (app/lib/memory/types.ts)\<close>

text \<open>
  JavaScript numbers that carry scores, weights and vector components are modelled as
  exact reals, and the similarity function is given on binary64 values as well;
  timestamps (\<open>Date.now()\<close>, milliseconds) and counters are integers.
  Strings are HOL strings; the character-level functions below cover the ASCII range.
\<close>

datatype memory_type = Conversation | CodeAnalysis | Decision | Pattern | Context | Research

datatype memory_source = SrcChat | SrcCode | SrcFile | SrcAnalysis | SrcResearch | SrcUserInput

record CodeReference =
  filePath :: string
  startLine :: "int option"
  endLine :: "int option"
  functionName :: "string option"
  className :: "string option"
  language :: string
  snippet :: string

text \<open>
  The entity type is a plain string at run time: \<open>extractEntities\<close> casts the keys of
  its pattern table (among them \<open>framework\<close> and \<open>database\<close>) into the field.
\<close>

record ExtractedEntity =
  entity_type :: string
  entity_name :: string
  entity_context :: string
  entity_confidence :: real

record MemoryMetadata =
  source :: memory_source
  projectId :: "string option"
  sessionId :: "string option"
  userId :: "string option"
  fileReferences :: "string list"
  codeReferences :: "CodeReference list"
  entities :: "ExtractedEntity list"
  summary :: string
  md_keywords :: "string list"
  confidence :: real

text \<open>\<open>Partial<MemoryMetadata>\<close>: every field may be absent.\<close>

record PartialMetadata =
  p_source :: "memory_source option"
  p_projectId :: "string option"
  p_sessionId :: "string option"
  p_userId :: "string option"
  p_fileReferences :: "string list option"
  p_codeReferences :: "CodeReference list option"
  p_entities :: "ExtractedEntity list option"
  p_summary :: "string option"
  p_keywords :: "string list option"
  p_confidence :: "real option"

record MemoryEntry =
  entry_id :: string
  entry_type :: memory_type
  content :: string
  metadata :: MemoryMetadata
  embedding :: "real list option"
  createdAt :: int
  updatedAt :: int
  accessCount :: int
  lastAccessed :: int
  importance :: real
  tags :: "string list"
  relatedEntries :: "string list"

text \<open>
  \<open>MemoryIndex\<close>, with the nested \<open>temporal\<close> and \<open>semantic\<close> objects flattened
  into one record. Every \<open>Map<string, string[]>\<close> is a partial map to a bucket.
\<close>

record MemoryIndex =
  byType :: "memory_type \<rightharpoonup> string list"
  byTag :: "string \<rightharpoonup> string list"
  byProject :: "string \<rightharpoonup> string list"
  byEntity :: "string \<rightharpoonup> string list"
  byKeyword :: "string \<rightharpoonup> string list"
  byDay :: "string \<rightharpoonup> string list"
  byWeek :: "string \<rightharpoonup> string list"
  byMonth :: "string \<rightharpoonup> string list"
  recent :: "string list"
  embeddings :: "string \<rightharpoonup> real list"
  clusters :: "(real list \<times> string list) list"
  similarityThreshold :: real

text \<open>
  What the JavaScript \<open>Date\<close> object yields for a timestamp: the date part of
  \<open>toISOString()\<close>, \<open>getFullYear()\<close>, \<open>getMonth()\<close> (0 to 11) and \<open>getDate()\<close>.
  Creation times are values of \<open>Date.now()\<close>, for which the \<open>Date\<close> is valid.
\<close>

record DateParts =
  iso_day :: string
  full_year :: int
  month0 :: nat
  day_of_month :: nat

text \<open>
  The platform and the collaborators the manager calls: the \<open>Date\<close> decomposition,
  \<open>JSON.stringify\<close> on a metadata object, and the outcome of each durable write and
  delete of the storage backend (IndexedDB or localStorage), which may reject.
\<close>

record runtime =
  Date_parts :: "int \<Rightarrow> DateParts"
  JSON_stringify :: "MemoryMetadata \<Rightarrow> string"
  save_fails :: "MemoryEntry \<Rightarrow> bool"
  delete_fails :: "string \<Rightarrow> bool"

datatype error = PersistenceError

text \<open>
  The manager: \<open>_memories\<close> is a \<open>Map\<close> keyed by entry id, written only by
  \<open>set(memory.id, memory)\<close>; it is the list of its values in iteration (insertion)
  order. \<open>embeddingCache\<close> belongs to the \<open>SemanticSearch\<close> instance; its keys are
  the decimal renderings of 32-bit hashes, kept as the integers they render.
  \<open>save_calls\<close> and \<open>delete_calls\<close> record the calls made to the persistence object.
  Of \<open>_stats\<close> only the activity counters are kept.
\<close>

record MemoryManager =
  memories :: "MemoryEntry list"
  index :: MemoryIndex
  embeddingCache :: "int \<rightharpoonup> real list"
  stats_created :: nat
  stats_accessed :: nat
  save_calls :: "string list"
  delete_calls :: "string list"

section \<open>The entry table\<close>

fun table_get :: "MemoryEntry list \<Rightarrow> string \<Rightarrow> MemoryEntry option" where
  "table_get [] i = None"
| "table_get (m # ms) i = (if entry_id m = i then Some m else table_get ms i)"

fun table_set :: "MemoryEntry \<Rightarrow> MemoryEntry list \<Rightarrow> MemoryEntry list" where
  "table_set m [] = [m]"
| "table_set m (x # xs) = (if entry_id x = entry_id m then m # xs else x # table_set m xs)"

definition table_delete :: "string \<Rightarrow> MemoryEntry list \<Rightarrow> MemoryEntry list" where
  "table_delete i ms = filter (\<lambda>m. entry_id m \<noteq> i) ms"

section \<open>Number rendering\<close>

definition digit_char :: "nat \<Rightarrow> char" where
  "digit_char d = ''0123456789'' ! (d mod 10)"

fun show_nat :: "nat \<Rightarrow> string" where
  "show_nat n = (if n < 10 then [digit_char n] else show_nat (n div 10) @ [digit_char n])"

declare show_nat.simps [simp del]

definition show_int :: "int \<Rightarrow> string" where
  "show_int k = (if k < 0 then CHR ''-'' # show_nat (nat (- k)) else show_nat (nat k))"

definition padStart2 :: "string \<Rightarrow> string" where
  "padStart2 s = (if length s < 2 then replicate (2 - length s) CHR ''0'' @ s else s)"

section \<open>Index maintenance (MemoryManager.initializeIndex, updateIndex)\<close>

definition initializeIndex :: MemoryIndex where
  "initializeIndex = \<lparr> byType = Map.empty, byTag = Map.empty, byProject = Map.empty,
     byEntity = Map.empty, byKeyword = Map.empty, byDay = Map.empty, byWeek = Map.empty,
     byMonth = Map.empty, recent = [], embeddings = Map.empty, clusters = [],
     similarityThreshold = 0.7 \<rparr>"

text \<open>\<open>if (!map.has(k)) map.set(k, []); map.get(k).push(id)\<close>\<close>

definition bucket_push :: "('k \<rightharpoonup> string list) \<Rightarrow> 'k \<Rightarrow> string \<Rightarrow> ('k \<rightharpoonup> string list)" where
  "bucket_push ix k i = ix(k \<mapsto> (case ix k of None \<Rightarrow> [] | Some b \<Rightarrow> b) @ [i])"

definition push_all :: "('k \<rightharpoonup> string list) \<Rightarrow> 'k list \<Rightarrow> string \<Rightarrow> ('k \<rightharpoonup> string list)" where
  "push_all ix ks i = foldl (\<lambda>acc k. bucket_push acc k i) ix ks"

definition entityKey :: "ExtractedEntity \<Rightarrow> string" where
  "entityKey e = entity_type e @ '':'' @ entity_name e"

definition weekKey :: "DateParts \<Rightarrow> string" where
  "weekKey d = show_int (full_year d) @ ''-W'' @ show_nat ((day_of_month d + 6) div 7)"

definition monthKey :: "DateParts \<Rightarrow> string" where
  "monthKey d = show_int (full_year d) @ ''-'' @ padStart2 (show_nat (month0 d + 1))"

definition recent_unshift :: "string \<Rightarrow> string list \<Rightarrow> string list" where
  "recent_unshift i r = (let r1 = i # r in if length r1 > 100 then take 100 r1 else r1)"

definition updateIndex :: "runtime \<Rightarrow> MemoryIndex \<Rightarrow> MemoryEntry \<Rightarrow> MemoryIndex" where
  "updateIndex E ix m =
    (let i = entry_id m;
         d = Date_parts E (createdAt m)
     in ix\<lparr> byType := bucket_push (byType ix) (entry_type m) i,
            byTag := push_all (byTag ix) (tags m) i,
            byProject := (case projectId (metadata m) of
                            None \<Rightarrow> byProject ix
                          | Some p \<Rightarrow> if p = [] then byProject ix
                                      else bucket_push (byProject ix) p i),
            byEntity := push_all (byEntity ix) (map entityKey (entities (metadata m))) i,
            byKeyword := push_all (byKeyword ix) (md_keywords (metadata m)) i,
            byDay := bucket_push (byDay ix) (iso_day d) i,
            byWeek := bucket_push (byWeek ix) (weekKey d) i,
            byMonth := bucket_push (byMonth ix) (monthKey d) i,
            recent := recent_unshift i (recent ix),
            embeddings := (case embedding m of
                             None \<Rightarrow> embeddings ix
                           | Some v \<Rightarrow> (embeddings ix)(i \<mapsto> v)) \<rparr>)"

text \<open>The rebuild step of \<open>optimizeMemory\<close>: a fresh index, then every entry replayed.\<close>

definition rebuildIndex :: "runtime \<Rightarrow> MemoryManager \<Rightarrow> MemoryManager" where
  "rebuildIndex E st = st\<lparr> index := foldl (updateIndex E) initializeIndex (memories st) \<rparr>"

section \<open>Eviction (MemoryManager.optimizeMemory)\<close>

definition cutoffDate :: "int \<Rightarrow> int" where
  "cutoffDate now = now - (30 * 24 * 60 * 60 * 1000)"

definition toRemove :: "int \<Rightarrow> MemoryEntry list \<Rightarrow> string list" where
  "toRemove now ms =
     map entry_id (filter (\<lambda>m. importance m < 0.3 \<and> lastAccessed m < cutoffDate now
                               \<and> accessCount m < 3) ms)"

text \<open>
  The deletion loop: the entry leaves the table, then the durable delete is awaited;
  \<open>deleteMemory\<close> rethrows a storage error, which ends \<open>optimizeMemory\<close> on the spot.
\<close>

fun delete_loop :: "runtime \<Rightarrow> string list \<Rightarrow> MemoryManager \<Rightarrow> (error + unit) \<times> MemoryManager" where
  "delete_loop E [] st = (Inr (), st)"
| "delete_loop E (i # is) st =
     (let st1 = st\<lparr> memories := table_delete i (memories st),
                    delete_calls := delete_calls st @ [i] \<rparr>
      in if delete_fails E i then (Inl PersistenceError, st1) else delete_loop E is st1)"

definition optimizeMemory :: "runtime \<Rightarrow> int \<Rightarrow> MemoryManager \<Rightarrow> (error + unit) \<times> MemoryManager" where
  "optimizeMemory E now st =
     (case delete_loop E (toRemove now (memories st)) st of
        (Inl e, st1) \<Rightarrow> (Inl e, st1)
      | (Inr u, st1) \<Rightarrow> (Inr (), rebuildIndex E st1))"

section \<open>Strings (ASCII)\<close>

definition toLowerCase_char :: "char \<Rightarrow> char" where
  "toLowerCase_char c =
     (case map_of (zip ''ABCDEFGHIJKLMNOPQRSTUVWXYZ'' ''abcdefghijklmnopqrstuvwxyz'') c of
        None \<Rightarrow> c | Some l \<Rightarrow> l)"

definition toLowerCase :: "string \<Rightarrow> string" where
  "toLowerCase s = map toLowerCase_char s"

text \<open>The regular-expression classes \<open>\w\<close> and \<open>\s\<close>.\<close>

definition is_word_char :: "char \<Rightarrow> bool" where
  "is_word_char c \<longleftrightarrow>
     c \<in> set ''abcdefghijklmnopqrstuvwxyzABCDEFGHIJKLMNOPQRSTUVWXYZ0123456789_''"

definition is_space :: "char \<Rightarrow> bool" where
  "is_space c \<longleftrightarrow> c \<in> set [CHR '' '', CHR 0x09, CHR 0x0A, CHR 0x0B, CHR 0x0C, CHR 0x0D]"

text \<open>
  \<open>s.split(/\s+/)\<close>: the pieces between maximal runs of white space; a leading or
  trailing run leaves an empty piece, and the empty string gives one empty piece.
  \<open>gap\<close> says that the scan is inside a run.
\<close>

fun split_loop :: "bool \<Rightarrow> string \<Rightarrow> string \<Rightarrow> string list" where
  "split_loop gap cur [] = [cur]"
| "split_loop gap cur (c # cs) =
     (if is_space c
      then (if gap then split_loop True cur cs else cur # split_loop True [] cs)
      else split_loop False (cur @ [c]) cs)"

definition split_ws :: "string \<Rightarrow> string list" where
  "split_ws s = split_loop False [] s"

text \<open>\<open>s.includes(t)\<close>\<close>

fun starts_with :: "string \<Rightarrow> string \<Rightarrow> bool" where
  "starts_with s [] = True"
| "starts_with [] (c # t) = False"
| "starts_with (d # s) (c # t) = (d = c \<and> starts_with s t)"

fun str_includes :: "string \<Rightarrow> string \<Rightarrow> bool" where
  "str_includes [] t = (t = [])"
| "str_includes (d # s) t = (starts_with (d # s) t \<or> str_includes s t)"

section \<open>Embedding engine (app/lib/memory/semantic-search.ts)\<close>

definition EMBEDDING_DIMENSION :: nat where
  "EMBEDDING_DIMENSION = 384"

definition stopWords :: "string list" where
  "stopWords = [''the'', ''a'', ''an'', ''and'', ''or'', ''but'', ''in'', ''on'', ''at'', ''to'',
     ''for'', ''of'', ''with'', ''by'', ''this'', ''that'', ''these'', ''those'', ''is'', ''are'',
     ''was'', ''were'', ''be'', ''been'', ''being'', ''have'', ''has'', ''had'', ''do'', ''does'',
     ''did'', ''will'', ''would'', ''could'', ''should'', ''may'', ''might'', ''must'', ''can'',
     ''shall'', ''it'', ''its'', ''they'', ''them'', ''their'', ''we'', ''us'', ''our'', ''you'',
     ''your'', ''he'', ''him'', ''his'', ''she'', ''her'', ''hers'', ''me'', ''my'', ''mine'']"

definition isStopWord :: "string \<Rightarrow> bool" where
  "isStopWord word \<longleftrightarrow> toLowerCase word \<in> set stopWords"

definition getVocabulary :: "string list" where
  "getVocabulary = [''function'', ''class'', ''method'', ''variable'', ''constant'', ''array'',
     ''object'', ''string'', ''number'', ''boolean'', ''null'', ''undefined'', ''true'', ''false'',
     ''if'', ''else'', ''for'', ''while'', ''loop'', ''condition'', ''return'', ''import'',
     ''export'', ''module'', ''component'', ''react'', ''vue'', ''angular'', ''node'',
     ''javascript'', ''typescript'', ''python'', ''java'', ''api'', ''endpoint'', ''route'',
     ''controller'', ''service'', ''model'', ''view'', ''database'', ''query'', ''insert'',
     ''update'', ''delete'', ''select'', ''join'', ''table'', ''column'', ''authentication'',
     ''authorization'', ''security'', ''validation'', ''error'', ''exception'', ''test'',
     ''testing'', ''unit'', ''integration'', ''deployment'', ''build'', ''compile'',
     ''performance'', ''optimization'', ''cache'', ''memory'', ''storage'', ''file'',
     ''directory'', ''configuration'', ''environment'', ''development'', ''production'',
     ''staging'', ''debug'']"

definition tokenize :: "string \<Rightarrow> string list" where
  "tokenize text =
     filter (\<lambda>word. \<not> isStopWord word)
       (filter (\<lambda>word. length word > 2)
         (split_ws (map (\<lambda>c. if \<not> is_word_char c \<and> \<not> is_space c then CHR '' '' else c)
                        (toLowerCase text))))"

text \<open>\<open>computeWordFrequency\<close>: a \<open>Map\<close> from word to count, in first-occurrence order.\<close>

fun freq_add :: "string \<Rightarrow> (string \<times> nat) list \<Rightarrow> (string \<times> nat) list" where
  "freq_add w [] = [(w, 1)]"
| "freq_add w ((v, n) # r) = (if v = w then (v, n + 1) # r else (v, n) # freq_add w r)"

definition computeWordFrequency :: "string list \<Rightarrow> (string \<times> nat) list" where
  "computeWordFrequency words = foldl (\<lambda>freq w. freq_add w freq) [] words"

text \<open>
  The string hash of \<open>hashWordToDimension\<close> and \<open>getCacheKey\<close>:
  \<open>hash = ((hash << 5) - hash) + char; hash = hash & hash\<close>, a signed 32-bit value.
\<close>

definition hash_step :: "32 word \<Rightarrow> char \<Rightarrow> 32 word" where
  "hash_step hash ch = (push_bit 5 hash - hash) + of_nat (of_char ch)"

definition string_hash :: "string \<Rightarrow> int" where
  "string_hash s = sint (foldl hash_step 0 s)"

definition hashWordToDimension :: "string \<Rightarrow> nat" where
  "hashWordToDimension word = nat \<bar>string_hash word\<bar> mod EMBEDDING_DIMENSION"

definition getCacheKey :: "string \<Rightarrow> int" where
  "getCacheKey text = string_hash text"

definition computeTFIDF :: "string \<Rightarrow> nat \<Rightarrow> nat \<Rightarrow> real" where
  "computeTFIDF word termFreq totalTerms =
     (let tf = real termFreq / real totalTerms;
          idf = (if word \<in> set getVocabulary then 1.0 else ln (1000 / (real termFreq + 1)))
      in tf * idf)"

definition normalizeVector :: "real list \<Rightarrow> real list" where
  "normalizeVector vector =
     (let magnitude = sqrt (foldl (\<lambda>sum val. sum + val * val) 0 vector)
      in if magnitude = 0 then vector else map (\<lambda>val. val / magnitude) vector)"

definition computeSimpleEmbedding :: "string \<Rightarrow> real list" where
  "computeSimpleEmbedding text =
     (let words = tokenize text;
          wordFreq = computeWordFrequency words
      in normalizeVector
           (foldl (\<lambda>emb (word, freq).
                     (let dimension = hashWordToDimension word
                      in emb[dimension := emb ! dimension + computeTFIDF word freq (length words)]))
                  (replicate EMBEDDING_DIMENSION 0) wordFreq))"

text \<open>
  \<open>generateEmbedding\<close>: the cache is consulted under the hash of the text; on a miss
  the embedding is computed and stored. \<open>computeSimpleEmbedding\<close> has no failing
  step, so the zero-vector fallback of the \<open>catch\<close> branch is never taken.
\<close>

definition generateEmbedding :: "(int \<rightharpoonup> real list) \<Rightarrow> string \<Rightarrow> real list \<times> (int \<rightharpoonup> real list)" where
  "generateEmbedding cache text =
     (let cacheKey = getCacheKey text
      in case cache cacheKey of
           Some e \<Rightarrow> (e, cache)
         | None \<Rightarrow> (let e = computeSimpleEmbedding text in (e, cache(cacheKey \<mapsto> e))))"

definition clearCache :: "(int \<rightharpoonup> real list) \<Rightarrow> (int \<rightharpoonup> real list)" where
  "clearCache cache = Map.empty"

text \<open>
  \<open>calculateSimilarity\<close> in exact arithmetic: one loop accumulates the dot product and
  both squared norms. The query model below ranks with this reading; the binary64
  reading of the same function is \<open>calculateSimilarity_double\<close>.
\<close>

fun similarity_loop :: "real list \<Rightarrow> real list \<Rightarrow> real \<times> real \<times> real \<Rightarrow> real \<times> real \<times> real" where
  "similarity_loop (x # xs) (y # ys) (dotProduct, magnitude1, magnitude2) =
     similarity_loop xs ys (dotProduct + x * y, magnitude1 + x * x, magnitude2 + y * y)"
| "similarity_loop xs ys acc = acc"

definition calculateSimilarity_exact :: "real list \<Rightarrow> real list \<Rightarrow> real" where
  "calculateSimilarity_exact embedding1 embedding2 =
     (if length embedding1 \<noteq> length embedding2 then 0
      else (case similarity_loop embedding1 embedding2 (0, 0, 0) of
              (dotProduct, m1, m2) \<Rightarrow>
                (let magnitude1 = sqrt m1; magnitude2 = sqrt m2
                 in if magnitude1 = 0 \<or> magnitude2 = 0 then 0
                    else dotProduct / (magnitude1 * magnitude2))))"

section \<open>IEEE 754 binary64 arithmetic\<close>

text \<open>
  JavaScript numbers are binary64 values. A finite value is a sign (\<open>True\<close> for minus),
  a magnitude \<open>m\<close> and an exponent \<open>e\<close>, and stands for \<open>m * 2 ^ e\<close> with that sign;
  both zeros exist. The result of an operation is the exact result rounded to the
  nearest value with 53 significant bits and an exponent of at least \<open>-1074\<close>, ties to
  the even magnitude; a rounded magnitude of \<open>2 ^ 1024\<close> or more is an infinity.
\<close>

datatype double = Finite bool nat int | Infinity bool | NaN

definition valof :: "double \<Rightarrow> real option" where
  "valof d = (case d of
      Finite s m e \<Rightarrow> Some ((if s then - 1 else 1) *
                            (if e \<ge> 0 then real m * 2 ^ nat e else real m / 2 ^ nat (- e)))
    | Infinity s \<Rightarrow> None
    | NaN \<Rightarrow> None)"

text \<open>\<open>x === 0\<close>: true of both zeros, false of every other value.\<close>

definition is_zero :: "double \<Rightarrow> bool" where
  "is_zero d = (case d of Finite s m e \<Rightarrow> m = 0 | Infinity s \<Rightarrow> False | NaN \<Rightarrow> False)"

fun bit_length :: "nat \<Rightarrow> nat" where
  "bit_length n = (if n = 0 then 0 else Suc (bit_length (n div 2)))"

declare bit_length.simps [simp del]

text \<open>Round half to even: quotient \<open>q\<close>, remainder \<open>r\<close>, divisor \<open>den\<close>.\<close>

definition rne :: "nat \<Rightarrow> nat \<Rightarrow> nat \<Rightarrow> nat" where
  "rne q r den = (if 2 * r > den \<or> (2 * r = den \<and> odd q) then q + 1 else q)"

definition pack :: "bool \<Rightarrow> nat \<Rightarrow> int \<Rightarrow> double" where
  "pack s m t = (if int (bit_length m) + t > 1024 then Infinity s else Finite s m t)"

definition round_q :: "bool \<Rightarrow> nat \<Rightarrow> nat \<Rightarrow> int \<Rightarrow> double" where
  "round_q s num den t = pack s (rne (num div den) (num mod den) den) t"

text \<open>The value \<open>N / D * 2 ^ e\<close> rounded to a multiple of \<open>2 ^ t\<close>.\<close>

definition round_at :: "bool \<Rightarrow> nat \<Rightarrow> nat \<Rightarrow> int \<Rightarrow> int \<Rightarrow> double" where
  "round_at s N D e t = round_q s (N * 2 ^ nat (e - t)) (D * 2 ^ nat (t - e)) t"

text \<open>The integer \<open>l\<close> with \<open>2 ^ l \<le> N / D < 2 ^ (l + 1)\<close>, for positive \<open>N\<close> and \<open>D\<close>.\<close>

definition fl_of :: "nat \<Rightarrow> nat \<Rightarrow> int \<Rightarrow> int" where
  "fl_of N D g = (if N * 2 ^ nat (- g) \<ge> D * 2 ^ nat g then g else g - 1)"

definition floorlog2_ratio :: "nat \<Rightarrow> nat \<Rightarrow> int" where
  "floorlog2_ratio N D = fl_of N D (int (bit_length N) - int (bit_length D))"

text \<open>The value \<open>N / D * 2 ^ e\<close> with sign \<open>s\<close>, rounded to binary64.\<close>

definition round_ratio :: "bool \<Rightarrow> nat \<Rightarrow> nat \<Rightarrow> int \<Rightarrow> double" where
  "round_ratio s N D e =
     (if N = 0 then Finite s 0 0
      else round_at s N D e (max (floorlog2_ratio N D + e - 52) (- 1074)))"

fun dmul :: "double \<Rightarrow> double \<Rightarrow> double" where
  "dmul (Finite s1 m1 e1) (Finite s2 m2 e2) = round_ratio (s1 \<noteq> s2) (m1 * m2) 1 (e1 + e2)"
| "dmul (Finite s1 m1 e1) (Infinity s2) = (if m1 = 0 then NaN else Infinity (s1 \<noteq> s2))"
| "dmul (Infinity s1) (Finite s2 m2 e2) = (if m2 = 0 then NaN else Infinity (s1 \<noteq> s2))"
| "dmul (Infinity s1) (Infinity s2) = Infinity (s1 \<noteq> s2)"
| "dmul NaN y = NaN"
| "dmul x NaN = NaN"

definition signed :: "bool \<Rightarrow> nat \<Rightarrow> int" where
  "signed s m = (if s then - int m else int m)"

text \<open>
  The exact sum of two finite values, at the smaller exponent; an exact zero sum is
  negative only when both operands are negative zeros.
\<close>

definition add_finite :: "bool \<Rightarrow> bool \<Rightarrow> int \<Rightarrow> int \<Rightarrow> double" where
  "add_finite s1 s2 a e =
     (if a = 0 then Finite (s1 \<and> s2) 0 0 else round_ratio (a < 0) (nat \<bar>a\<bar>) 1 e)"

fun dadd :: "double \<Rightarrow> double \<Rightarrow> double" where
  "dadd (Finite s1 m1 e1) (Finite s2 m2 e2) =
     add_finite s1 s2 (signed s1 m1 * 2 ^ nat (e1 - min e1 e2)
                       + signed s2 m2 * 2 ^ nat (e2 - min e1 e2)) (min e1 e2)"
| "dadd (Finite s1 m1 e1) (Infinity s2) = Infinity s2"
| "dadd (Infinity s1) (Finite s2 m2 e2) = Infinity s1"
| "dadd (Infinity s1) (Infinity s2) = (if s1 = s2 then Infinity s1 else NaN)"
| "dadd NaN y = NaN"
| "dadd x NaN = NaN"

fun ddiv :: "double \<Rightarrow> double \<Rightarrow> double" where
  "ddiv (Finite s1 m1 e1) (Finite s2 m2 e2) =
     (if m2 = 0 then (if m1 = 0 then NaN else Infinity (s1 \<noteq> s2))
      else round_ratio (s1 \<noteq> s2) m1 m2 (e1 - e2))"
| "ddiv (Finite s1 m1 e1) (Infinity s2) = Finite (s1 \<noteq> s2) 0 0"
| "ddiv (Infinity s1) (Finite s2 m2 e2) = Infinity (s1 \<noteq> s2)"
| "ddiv (Infinity s1) (Infinity s2) = NaN"
| "ddiv NaN y = NaN"
| "ddiv x NaN = NaN"

text \<open>The integer square root, two bits of the argument per step.\<close>

definition isqrt_step :: "nat \<Rightarrow> nat \<Rightarrow> nat" where
  "isqrt_step n s = (if (2 * s + 1) * (2 * s + 1) \<le> n then 2 * s + 1 else 2 * s)"

fun isqrt :: "nat \<Rightarrow> nat" where
  "isqrt n = (if n = 0 then 0 else isqrt_step n (isqrt (n div 4)))"

declare isqrt.simps [simp del]

text \<open>
  The square root of \<open>M * 2 ^ (2 * h)\<close>: the integer root \<open>r\<close> of \<open>M\<close> with one more bit
  that says whether the root is inexact, rounded; the callers make \<open>r\<close> at least 64
  bits long, so that bit lies below every rounding point.
\<close>

definition sqrt_rounded :: "nat \<Rightarrow> nat \<Rightarrow> int \<Rightarrow> double" where
  "sqrt_rounded M r h = round_ratio False (2 * r + (if r * r = M then 0 else 1)) 1 (h - 1)"

definition sqrt_even :: "nat \<Rightarrow> int \<Rightarrow> double" where
  "sqrt_even m e = sqrt_rounded (m * 2 ^ 128) (isqrt (m * 2 ^ 128)) (e div 2 - 64)"

fun dsqrt :: "double \<Rightarrow> double" where
  "dsqrt (Finite s m e) =
     (if m = 0 then Finite s 0 0
      else if s then NaN
      else if even e then sqrt_even m e else sqrt_even (2 * m) (e - 1))"
| "dsqrt (Infinity s) = (if s then NaN else Infinity False)"
| "dsqrt NaN = NaN"

text \<open>
  \<open>calculateSimilarity\<close> as the engine runs it, on binary64 values: the same loop and
  the same tests, with every product, sum, root and quotient rounded.
\<close>

fun similarity_loop_double :: "double list \<Rightarrow> double list \<Rightarrow> double \<times> double \<times> double
    \<Rightarrow> double \<times> double \<times> double" where
  "similarity_loop_double (x # xs) (y # ys) (dotProduct, magnitude1, magnitude2) =
     similarity_loop_double xs ys
       (dadd dotProduct (dmul x y), dadd magnitude1 (dmul x x), dadd magnitude2 (dmul y y))"
| "similarity_loop_double xs ys acc = acc"

definition calculateSimilarity_double :: "double list \<Rightarrow> double list \<Rightarrow> double" where
  "calculateSimilarity_double embedding1 embedding2 =
     (if length embedding1 \<noteq> length embedding2 then Finite False 0 0
      else (case similarity_loop_double embedding1 embedding2
                  (Finite False 0 0, Finite False 0 0, Finite False 0 0) of
              (dotProduct, m1, m2) \<Rightarrow>
                (if is_zero (dsqrt m1) \<or> is_zero (dsqrt m2) then Finite False 0 0
                 else ddiv dotProduct (dmul (dsqrt m1) (dsqrt m2)))))"

text \<open>The magnitude of a vector as that loop computes it.\<close>

definition magnitude_double :: "double list \<Rightarrow> double" where
  "magnitude_double v = dsqrt (foldl (\<lambda>sum x. dadd sum (dmul x x)) (Finite False 0 0) v)"

section \<open>Content analysis (app/lib/memory/context-analyzer.ts)\<close>

text \<open>
  The regular-expression extractors of \<open>ContextAnalyzer\<close> (entities, keywords, code
  references, summary, confidence) are arbitrary functions of the content: nothing
  below depends on what they find.
\<close>

record analyzer =
  extractEntities :: "string \<Rightarrow> ExtractedEntity list"
  extractKeywords :: "string \<Rightarrow> string list"
  extractCodeReferences :: "string \<Rightarrow> CodeReference list"
  generateSummary :: "string \<Rightarrow> string"
  calculateConfidence :: "string \<Rightarrow> ExtractedEntity list \<Rightarrow> string list \<Rightarrow> real"

text \<open>\<open>[...new Set(xs)]\<close>: the first occurrence of every element, in order.\<close>

definition uniq :: "'a list \<Rightarrow> 'a list" where
  "uniq xs = foldl (\<lambda>seen x. if x \<in> set seen then seen else seen @ [x]) [] xs"

definition or_empty :: "'a list option \<Rightarrow> 'a list" where
  "or_empty v = (case v of None \<Rightarrow> [] | Some xs \<Rightarrow> xs)"

definition analyzeContent :: "analyzer \<Rightarrow> string \<Rightarrow> PartialMetadata \<Rightarrow> MemoryMetadata" where
  "analyzeContent A text existingMetadata =
     (let ents = extractEntities A text;
          kws = extractKeywords A text;
          refs = extractCodeReferences A text;
          summ = generateSummary A text;
          conf = calculateConfidence A text ents kws
      in \<lparr> source = (case p_source existingMetadata of None \<Rightarrow> SrcUserInput | Some s \<Rightarrow> s),
           projectId = p_projectId existingMetadata,
           sessionId = p_sessionId existingMetadata,
           userId = p_userId existingMetadata,
           fileReferences = or_empty (p_fileReferences existingMetadata),
           codeReferences = or_empty (p_codeReferences existingMetadata) @ refs,
           entities = or_empty (p_entities existingMetadata) @ ents,
           summary = summ,
           md_keywords = uniq (or_empty (p_keywords existingMetadata) @ kws),
           confidence = conf \<rparr>)"

section \<open>Relation finder (MemoryManager.findRelatedMemories)\<close>

definition sharedEntities :: "MemoryEntry \<Rightarrow> MemoryEntry \<Rightarrow> ExtractedEntity list" where
  "sharedEntities memory existingMemory =
     filter (\<lambda>entity. \<exists>e \<in> set (entities (metadata existingMemory)).
                        entity_name e = entity_name entity \<and> entity_type e = entity_type entity)
            (entities (metadata memory))"

definition sharedKeywords :: "MemoryEntry \<Rightarrow> MemoryEntry \<Rightarrow> string list" where
  "sharedKeywords memory existingMemory =
     filter (\<lambda>keyword. keyword \<in> set (md_keywords (metadata existingMemory)))
            (md_keywords (metadata memory))"

fun entity_pass :: "MemoryEntry \<Rightarrow> string list \<Rightarrow> MemoryEntry list \<Rightarrow> string list" where
  "entity_pass memory related [] = related"
| "entity_pass memory related (existingMemory # rest) =
     (if entry_id existingMemory = entry_id memory then entity_pass memory related rest
      else if length (sharedEntities memory existingMemory) > 0
           then entity_pass memory (related @ [entry_id existingMemory]) rest
           else entity_pass memory related rest)"

fun keyword_pass :: "MemoryEntry \<Rightarrow> string list \<Rightarrow> MemoryEntry list \<Rightarrow> string list" where
  "keyword_pass memory related [] = related"
| "keyword_pass memory related (existingMemory # rest) =
     (if entry_id existingMemory = entry_id memory \<or> entry_id existingMemory \<in> set related
      then keyword_pass memory related rest
      else if length (sharedKeywords memory existingMemory) \<ge> 2
           then keyword_pass memory (related @ [entry_id existingMemory]) rest
           else keyword_pass memory related rest)"

definition findRelatedMemories :: "MemoryEntry list \<Rightarrow> MemoryEntry \<Rightarrow> string list" where
  "findRelatedMemories table memory =
     take 10 (keyword_pass memory (entity_pass memory [] table) table)"

section \<open>Ingestion (MemoryManager.storeMemory)\<close>

text \<open>
  \<open>now\<close> is the value of \<open>Date.now()\<close> and \<open>rnd\<close> the nine characters taken from
  \<open>Math.random().toString(36)\<close>. The object spread puts every field of the analysed
  metadata over the literal defaults, and the analysed metadata defines every field.
\<close>

definition new_memory :: "analyzer \<Rightarrow> int \<Rightarrow> string \<Rightarrow> memory_type \<Rightarrow> string \<Rightarrow> PartialMetadata
    \<Rightarrow> real \<Rightarrow> real list \<Rightarrow> MemoryEntry" where
  "new_memory A now rnd ty text md imp emb =
     (let analyzedMetadata = analyzeContent A text md
      in \<lparr> entry_id = ''memory-'' @ show_int now @ ''-'' @ rnd,
           entry_type = ty,
           content = text,
           metadata = analyzedMetadata,
           embedding = Some emb,
           createdAt = now,
           updatedAt = now,
           accessCount = 0,
           lastAccessed = now,
           importance = imp,
           tags = md_keywords analyzedMetadata,
           relatedEntries = [] \<rparr>)"

definition storeMemory :: "analyzer \<Rightarrow> runtime \<Rightarrow> int \<Rightarrow> string \<Rightarrow> memory_type \<Rightarrow> string
    \<Rightarrow> PartialMetadata \<Rightarrow> real \<Rightarrow> MemoryManager \<Rightarrow> (error + MemoryEntry) \<times> MemoryManager" where
  "storeMemory A E now rnd ty text md imp st =
     (case generateEmbedding (embeddingCache st) text of
        (emb, cache) \<Rightarrow>
          (let memory0 = new_memory A now rnd ty text md imp emb;
               memory = memory0\<lparr> relatedEntries := findRelatedMemories (memories st) memory0 \<rparr>;
               st1 = st\<lparr> memories := table_set memory (memories st),
                          index := updateIndex E (index st) memory,
                          embeddingCache := cache,
                          save_calls := save_calls st @ [entry_id memory] \<rparr>
           in if save_fails E memory then (Inl PersistenceError, st1)
              else (Inr memory, st1\<lparr> stats_created := stats_created st1 + 1 \<rparr>)))"

text \<open>The entry that \<open>storeMemory\<close> constructs and commits, as a function of its inputs.\<close>

definition build_memory :: "analyzer \<Rightarrow> int \<Rightarrow> string \<Rightarrow> memory_type \<Rightarrow> string \<Rightarrow> PartialMetadata
    \<Rightarrow> real \<Rightarrow> MemoryManager \<Rightarrow> MemoryEntry" where
  "build_memory A now rnd ty text md imp st =
     (let memory0 = new_memory A now rnd ty text md imp
                      (fst (generateEmbedding (embeddingCache st) text))
      in memory0\<lparr> relatedEntries := findRelatedMemories (memories st) memory0 \<rparr>)"

text \<open>
  The relation criteria in the words of the specification: a shared
  (entity type, entity name) pair, and at least two shared keywords.
\<close>

definition shares_entity :: "MemoryEntry \<Rightarrow> MemoryEntry \<Rightarrow> bool" where
  "shares_entity memory x \<longleftrightarrow>
     (\<exists>a \<in> set (entities (metadata memory)). \<exists>b \<in> set (entities (metadata x)).
        entity_type a = entity_type b \<and> entity_name a = entity_name b)"

definition shares_two_keywords :: "MemoryEntry \<Rightarrow> MemoryEntry \<Rightarrow> bool" where
  "shares_two_keywords memory x \<longleftrightarrow>
     card (set (md_keywords (metadata memory)) \<inter> set (md_keywords (metadata x))) \<ge> 2"

section \<open>Query engine (MemoryManager.searchMemories)\<close>

datatype match_type = Exact | Semantic | Related | Temporal

text \<open>
  A result holds a reference to the entry object of the table; \<open>entry\<close> is that
  object as the table holds it, and the table slot it points at is the one with its id.
\<close>

record MemorySearchResult =
  entry :: MemoryEntry
  score :: real
  relevance :: real
  matchType :: match_type
  highlights :: "string list"

record MemoryQuery =
  q_text :: "string option"
  q_type :: "memory_type option"
  q_tags :: "string list option"
  q_projectId :: "string option"
  q_timeRange :: "(int \<times> int) option"
  q_entities :: "string list option"
  q_keywords :: "string list option"
  q_minImportance :: "real option"
  q_maxResults :: "int option"
  q_includeRelated :: bool
  q_semanticSearch :: bool

text \<open>The loop over the search terms: score and highlights.\<close>

fun term_loop :: "string \<Rightarrow> string \<Rightarrow> string list \<Rightarrow> real \<times> string list \<Rightarrow> real \<times> string list" where
  "term_loop text_lc meta_lc [] acc = acc"
| "term_loop text_lc meta_lc (t # ts) (sc, hl) =
     (let (sc1, hl1) = (if str_includes text_lc t then (sc + 1, hl @ [t]) else (sc, hl));
          sc2 = (if str_includes meta_lc t then sc1 + 0.5 else sc1)
      in term_loop text_lc meta_lc ts (sc2, hl1))"

text \<open>The loop over the tags of the entry.\<close>

fun tag_loop :: "string list \<Rightarrow> string list \<Rightarrow> real \<times> string list \<Rightarrow> real \<times> string list" where
  "tag_loop searchTerms [] acc = acc"
| "tag_loop searchTerms (tag # rest) (sc, hl) =
     (if \<exists>t \<in> set searchTerms. str_includes (toLowerCase tag) t
      then tag_loop searchTerms rest (sc + 0.8, hl @ [tag])
      else tag_loop searchTerms rest (sc, hl))"

definition text_match :: "runtime \<Rightarrow> string list \<Rightarrow> MemoryEntry \<Rightarrow> real \<times> string list" where
  "text_match E searchTerms memory =
     tag_loop searchTerms (tags memory)
       (term_loop (toLowerCase (content memory))
                  (toLowerCase (JSON_stringify E (metadata memory))) searchTerms (0, []))"

fun text_search_loop :: "runtime \<Rightarrow> string list \<Rightarrow> MemoryEntry list \<Rightarrow> MemorySearchResult list" where
  "text_search_loop E searchTerms [] = []"
| "text_search_loop E searchTerms (memory # rest) =
     (case text_match E searchTerms memory of
        (sc, hl) \<Rightarrow>
          (if sc > 0
           then \<lparr> entry = memory, score = sc / real (length searchTerms),
                  relevance = sc / real (length searchTerms), matchType = Exact,
                  highlights = hl \<rparr> # text_search_loop E searchTerms rest
           else text_search_loop E searchTerms rest))"

definition performTextSearch :: "runtime \<Rightarrow> string \<Rightarrow> MemoryEntry list \<Rightarrow> MemorySearchResult list" where
  "performTextSearch E text table = text_search_loop E (split_ws (toLowerCase text)) table"

fun semantic_search_loop :: "real \<Rightarrow> real list \<Rightarrow> MemoryEntry list \<Rightarrow> MemorySearchResult list" where
  "semantic_search_loop threshold queryEmbedding [] = []"
| "semantic_search_loop threshold queryEmbedding (memory # rest) =
     (case embedding memory of
        None \<Rightarrow> semantic_search_loop threshold queryEmbedding rest
      | Some v \<Rightarrow>
          (let similarity = calculateSimilarity_exact queryEmbedding v
           in if similarity \<ge> threshold
              then \<lparr> entry = memory, score = similarity, relevance = similarity,
                     matchType = Semantic, highlights = [] \<rparr>
                   # semantic_search_loop threshold queryEmbedding rest
              else semantic_search_loop threshold queryEmbedding rest))"

definition performSemanticSearch :: "string \<Rightarrow> MemoryManager \<Rightarrow> MemorySearchResult list \<times> MemoryManager" where
  "performSemanticSearch text st =
     (case generateEmbedding (embeddingCache st) text of
        (queryEmbedding, cache) \<Rightarrow>
          (semantic_search_loop (similarityThreshold (index st)) queryEmbedding (memories st),
           st\<lparr> embeddingCache := cache \<rparr>))"

text \<open>
  \<open>getRelatedMemories\<close>: the inner loop over the related ids of one result, then the
  outer loop over the results; the state is the list built so far and \<open>processedIds\<close>.
\<close>

fun related_ids_loop :: "MemoryEntry list \<Rightarrow> MemorySearchResult \<Rightarrow> string list
    \<Rightarrow> MemorySearchResult list \<times> string set \<Rightarrow> MemorySearchResult list \<times> string set" where
  "related_ids_loop table result [] acc = acc"
| "related_ids_loop table result (relatedId # rest) (relatedResults, processedIds) =
     (if relatedId \<in> processedIds
      then related_ids_loop table result rest (relatedResults, processedIds)
      else (case table_get table relatedId of
              None \<Rightarrow> related_ids_loop table result rest (relatedResults, processedIds)
            | Some relatedMemory \<Rightarrow>
                related_ids_loop table result rest
                  (relatedResults @ [\<lparr> entry = relatedMemory, score = score result * 0.7,
                                       relevance = relevance result * 0.7, matchType = Related,
                                       highlights = [] \<rparr>],
                   insert relatedId processedIds)))"

fun related_results_loop :: "MemoryEntry list \<Rightarrow> MemorySearchResult list
    \<Rightarrow> MemorySearchResult list \<times> string set \<Rightarrow> MemorySearchResult list \<times> string set" where
  "related_results_loop table [] acc = acc"
| "related_results_loop table (result # rest) acc =
     related_results_loop table rest
       (related_ids_loop table result (relatedEntries (entry result)) acc)"

definition getRelatedMemories :: "MemoryEntry list \<Rightarrow> MemorySearchResult list \<Rightarrow> MemorySearchResult list" where
  "getRelatedMemories table results =
     fst (related_results_loop table results ([], set (map (\<lambda>r. entry_id (entry r)) results)))"

text \<open>\<open>xs.slice(0, n)\<close> for an integer \<open>n\<close>; a negative \<open>n\<close> counts from the end.\<close>

definition slice0 :: "'a list \<Rightarrow> int \<Rightarrow> 'a list" where
  "slice0 xs n = (if n < 0 then take (length xs - nat (- n)) xs else take (nat n) xs)"

definition apply_filters :: "MemoryQuery \<Rightarrow> MemorySearchResult list \<Rightarrow> MemorySearchResult list" where
  "apply_filters query results =
     (let r1 = (case q_type query of None \<Rightarrow> results
                | Some ty \<Rightarrow> filter (\<lambda>r. entry_type (entry r) = ty) results);
          r2 = (case q_tags query of None \<Rightarrow> r1
                | Some ts \<Rightarrow> if length ts > 0
                             then filter (\<lambda>r. \<exists>tag \<in> set ts. tag \<in> set (tags (entry r))) r1
                             else r1);
          r3 = (case q_projectId query of None \<Rightarrow> r2
                | Some p \<Rightarrow> if p = [] then r2
                            else filter (\<lambda>r. projectId (metadata (entry r)) = Some p) r2);
          r4 = (case q_timeRange query of None \<Rightarrow> r3
                | Some (start, end) \<Rightarrow>
                    filter (\<lambda>r. createdAt (entry r) \<ge> start \<and> createdAt (entry r) \<le> end) r3);
          r5 = (case q_minImportance query of None \<Rightarrow> r4
                | Some mi \<Rightarrow> filter (\<lambda>r. importance (entry r) \<ge> mi) r4)
      in r5)"

text \<open>
  The access update at the end of \<open>searchMemories\<close>: one step per result record, in
  order; \<open>clock k\<close> is what \<open>Date.now()\<close> returns at the \<open>k\<close>-th step. The entry
  object a result points at is the table slot with its id.
\<close>

definition touch :: "string \<Rightarrow> int \<Rightarrow> MemoryEntry list \<Rightarrow> MemoryEntry list" where
  "touch i t table =
     map (\<lambda>m. if entry_id m = i
               then m\<lparr> accessCount := accessCount m + 1, lastAccessed := t \<rparr> else m) table"

fun access_loop :: "(nat \<Rightarrow> int) \<Rightarrow> nat \<Rightarrow> MemorySearchResult list \<Rightarrow> MemoryManager \<Rightarrow> MemoryManager" where
  "access_loop clock k [] st = st"
| "access_loop clock k (result # rest) st =
     access_loop clock (Suc k) rest
       (st\<lparr> memories := touch (entry_id (entry result)) (clock k) (memories st),
             stats_accessed := stats_accessed st + 1 \<rparr>)"

text \<open>The returned records point at the updated entry objects.\<close>

definition deref :: "MemoryEntry list \<Rightarrow> MemorySearchResult \<Rightarrow> MemorySearchResult" where
  "deref table r = (case table_get table (entry_id (entry r)) of
                      None \<Rightarrow> r | Some m \<Rightarrow> r\<lparr> entry := m \<rparr>)"

definition has_text :: "MemoryQuery \<Rightarrow> bool" where
  "has_text query \<longleftrightarrow> (case q_text query of None \<Rightarrow> False | Some t \<Rightarrow> t \<noteq> [])"

definition searchMemories :: "runtime \<Rightarrow> (nat \<Rightarrow> int) \<Rightarrow> MemoryQuery \<Rightarrow> MemoryManager
    \<Rightarrow> MemorySearchResult list \<times> MemoryManager" where
  "searchMemories E clock query st =
     (let textResults = (if has_text query
                         then performTextSearch E (the (q_text query)) (memories st) else []);
          (semanticResults, st1) =
             (if q_semanticSearch query \<and> has_text query
              then performSemanticSearch (the (q_text query)) st else ([], st));
          results = textResults @ semanticResults;
          filtered = apply_filters query results;
          sorted = sort_key (\<lambda>r. - (score r * importance (entry r))) filtered;
          maxResults = (case q_maxResults query of None \<Rightarrow> 20
                        | Some n \<Rightarrow> if n = 0 then 20 else n);
          limited = slice0 sorted maxResults;
          final = (if q_includeRelated query
                   then limited @ getRelatedMemories (memories st1) limited else limited);
          st2 = access_loop clock 0 final st1
      in (map (deref (memories st2)) final, st2))"

section \<open>Lookup (MemoryManager.getMemory)\<close>

definition getMemory :: "int \<Rightarrow> string \<Rightarrow> MemoryManager \<Rightarrow> MemoryEntry option \<times> MemoryManager" where
  "getMemory now i st =
     (case table_get (memories st) i of
        None \<Rightarrow> (None, st)
      | Some m \<Rightarrow>
          (let m1 = m\<lparr> accessCount := accessCount m + 1, lastAccessed := now \<rparr>
           in (Some m1, st\<lparr> memories := table_set m1 (memories st),
                           stats_accessed := stats_accessed st + 1 \<rparr>)))"

section \<open>Text scoring in closed form\<close>

text \<open>The tags that contain at least one of the search terms.\<close>

definition matching_tags :: "string list \<Rightarrow> MemoryEntry \<Rightarrow> string list" where
  "matching_tags searchTerms m =
     filter (\<lambda>tag. \<exists>t \<in> set searchTerms. str_includes (toLowerCase tag) t) (tags m)"

text \<open>
  The score before normalisation: 1 for every term found in the content, 0.5 for every
  term found in the serialised metadata, and 0.8 for every tag that contains some term.
\<close>

definition text_score :: "runtime \<Rightarrow> string list \<Rightarrow> MemoryEntry \<Rightarrow> real" where
  "text_score E searchTerms m =
     (\<Sum>t\<leftarrow>searchTerms.
        (if str_includes (toLowerCase (content m)) t then 1 else 0) +
        (if str_includes (toLowerCase (JSON_stringify E (metadata m))) t then 0.5 else 0)) +
     0.8 * real (length (matching_tags searchTerms m))"

text \<open>
  The score as the specification words it: for each term, 1 for the content, 0.5 for the
  serialised metadata, and 0.8 for each tag that contains that term.
\<close>

definition claimed_text_score :: "runtime \<Rightarrow> string list \<Rightarrow> MemoryEntry \<Rightarrow> real" where
  "claimed_text_score E searchTerms m =
     (\<Sum>t\<leftarrow>searchTerms.
        (if str_includes (toLowerCase (content m)) t then 1 else 0) +
        (if str_includes (toLowerCase (JSON_stringify E (metadata m))) t then 0.5 else 0) +
        0.8 * real (length (filter (\<lambda>tag. str_includes (toLowerCase tag) t) (tags m))))"

section \<open>Result records per entry\<close>



section \<open>Operation sequences\<close>

text \<open>
  The state the constructor leaves when the persistence object has nothing to load.
\<close>

definition fresh_manager :: MemoryManager where
  "fresh_manager = \<lparr> memories = [], index = initializeIndex, embeddingCache = Map.empty,
     stats_created = 0, stats_accessed = 0, save_calls = [], delete_calls = [] \<rparr>"

text \<open>Calls on the manager that insert, look up or query, with their arguments.\<close>

datatype operation =
    OpStore int string memory_type string PartialMetadata real
  | OpGet int string
  | OpSearch "nat \<Rightarrow> int" MemoryQuery

fun step :: "analyzer \<Rightarrow> runtime \<Rightarrow> MemoryManager \<Rightarrow> operation \<Rightarrow> MemoryManager" where
  "step A E st (OpStore now rnd ty text md imp) = snd (storeMemory A E now rnd ty text md imp st)"
| "step A E st (OpGet now i) = snd (getMemory now i st)"
| "step A E st (OpSearch clock query) = snd (searchMemories E clock query st)"

text \<open>The ids of the entries a sequence of calls inserts, in call order.\<close>

fun inserted_ids :: "operation list \<Rightarrow> string list" where
  "inserted_ids [] = []"
| "inserted_ids (OpStore now rnd ty text md imp # ops) =
     (''memory-'' @ show_int now @ ''-'' @ rnd) # inserted_ids ops"
| "inserted_ids (OpGet now i # ops) = inserted_ids ops"
| "inserted_ids (OpSearch clock query # ops) = inserted_ids ops"

section \<open>Invariants\<close>

text \<open>
  Every entry of the table carries its keywords as its tags, and the tag index and the
  keyword index are the same map.
\<close>

definition tags_match :: "MemoryManager \<Rightarrow> bool" where
  "tags_match st \<longleftrightarrow> (\<forall>m \<in> set (memories st). tags m = md_keywords (metadata m)) \<and>
                     byTag (index st) = byKeyword (index st)"


section \<open>Example data\<close>

definition example_metadata :: MemoryMetadata where
  "example_metadata = \<lparr> source = SrcUserInput, projectId = None, sessionId = None,
     userId = None, fileReferences = [], codeReferences = [], entities = [], summary = [],
     md_keywords = [], confidence = 1 \<rparr>"

definition example_entry :: "string \<Rightarrow> real \<Rightarrow> int \<Rightarrow> int \<Rightarrow> MemoryEntry" where
  "example_entry i imp cnt seen = \<lparr> entry_id = i, entry_type = Conversation, content = [],
     metadata = example_metadata, embedding = None, createdAt = 0, updatedAt = 0,
     accessCount = cnt, lastAccessed = seen, importance = imp, tags = [],
     relatedEntries = [] \<rparr>"

definition example_date :: "int \<Rightarrow> DateParts" where
  "example_date t = \<lparr> iso_day = ''1970-01-01'', full_year = 1970, month0 = 0, day_of_month = 1 \<rparr>"

text \<open>
  A stand-in analyzer: the keywords are the lower-case words of the content; it finds
  no entities and no code references.
\<close>

definition example_analyzer :: analyzer where
  "example_analyzer = \<lparr> extractEntities = (\<lambda>text. []),
     extractKeywords = (\<lambda>text. split_ws (toLowerCase text)),
     extractCodeReferences = (\<lambda>text. []), generateSummary = (\<lambda>text. text),
     calculateConfidence = (\<lambda>text ents kws. 0.5) \<rparr>"

definition no_overrides :: PartialMetadata where
  "no_overrides = \<lparr> p_source = None, p_projectId = None, p_sessionId = None, p_userId = None,
     p_fileReferences = None, p_codeReferences = None, p_entities = None, p_summary = None,
     p_keywords = None, p_confidence = None \<rparr>"

definition with_keywords :: "string list \<Rightarrow> MemoryEntry \<Rightarrow> MemoryEntry" where
  "with_keywords ks m = m\<lparr> metadata := (metadata m)\<lparr> md_keywords := ks \<rparr>, tags := ks \<rparr>"

text \<open>
  What \<open>JSON.stringify\<close> yields for a metadata object of the shape of
  \<open>example_metadata\<close> (source \<open>user-input\<close>, no optional identifiers, empty reference
  and entity lists, confidence 1) whose summary and keywords need no escaping.
\<close>

definition json_string :: "string \<Rightarrow> string" where
  "json_string s = CHR 0x22 # s @ [CHR 0x22]"

fun json_strings :: "string list \<Rightarrow> string" where
  "json_strings [] = []"
| "json_strings [s] = json_string s"
| "json_strings (s # t # r) = json_string s @ '','' @ json_strings (t # r)"

definition example_stringify :: "MemoryMetadata \<Rightarrow> string" where
  "example_stringify md =
     ''{'' @ json_string ''source'' @ '':'' @ json_string ''user-input'' @ '','' @
     json_string ''fileReferences'' @ '':[],'' @ json_string ''codeReferences'' @ '':[],'' @
     json_string ''entities'' @ '':[],'' @
     json_string ''summary'' @ '':'' @ json_string (summary md) @ '','' @
     json_string ''keywords'' @ '':['' @ json_strings (md_keywords md) @ ''],'' @
     json_string ''confidence'' @ '':1}''"




text \<open>A platform whose storage backend accepts every call, and one that rejects every call.\<close>

definition example_runtime :: "bool \<Rightarrow> runtime" where
  "example_runtime failing = \<lparr> Date_parts = example_date, JSON_stringify = example_stringify,
     save_fails = (\<lambda>m. failing), delete_fails = (\<lambda>i. failing) \<rparr>"

definition example_manager :: "MemoryEntry list \<Rightarrow> MemoryManager" where
  "example_manager ms = fresh_manager\<lparr> memories := ms \<rparr>"

section \<open>Cosine similarity: range and degenerate inputs\<close>

lemma similarity_loop_sums:
  "length xs = length ys \<Longrightarrow>
   similarity_loop xs ys (d, a, b) =
     (d + (\<Sum>(x, y)\<leftarrow>zip xs ys. x * y), a + (\<Sum>x\<leftarrow>xs. x * x), b + (\<Sum>y\<leftarrow>ys. y * y))"
  by (induction xs ys arbitrary: d a b rule: list_induct2) (simp_all add: algebra_simps)

lemma sum_squares_nonneg: "0 \<le> (\<Sum>x\<leftarrow>(v::real list). x * x)"
  by (induction v) simp_all

lemma cs_step:
  fixes A X Y a b :: real
  assumes "A\<^sup>2 \<le> X * Y" "0 \<le> X" "0 \<le> Y"
  shows "(A + a * b)\<^sup>2 \<le> (X + a * a) * (Y + b * b)"
proof -
  have "(2 * A * a * b)\<^sup>2 = 4 * A\<^sup>2 * (a\<^sup>2 * b\<^sup>2)"
    by (simp add: power2_eq_square)
  also have "\<dots> \<le> 4 * (X * Y) * (a\<^sup>2 * b\<^sup>2)"
    using assms(1) by (intro mult_right_mono mult_left_mono) simp_all
  also have "\<dots> = 4 * (X * b\<^sup>2) * (Y * a\<^sup>2)"
    by simp
  also have "\<dots> \<le> (X * b\<^sup>2 + Y * a\<^sup>2)\<^sup>2"
  proof -
    have "0 \<le> (X * b\<^sup>2 - Y * a\<^sup>2)\<^sup>2" by simp
    then show ?thesis by (simp add: power2_eq_square algebra_simps)
  qed
  finally have "(2 * A * a * b)\<^sup>2 \<le> (X * b\<^sup>2 + Y * a\<^sup>2)\<^sup>2" .
  moreover have "0 \<le> X * b\<^sup>2 + Y * a\<^sup>2"
    using assms(2,3) by simp
  ultimately have "2 * A * a * b \<le> X * b\<^sup>2 + Y * a\<^sup>2"
    by (rule power2_le_imp_le)
  then show ?thesis
    using assms(1) by (simp add: power2_eq_square algebra_simps)
qed

lemma cauchy_schwarz_lists:
  "length xs = length ys \<Longrightarrow>
   (\<Sum>(x, y)\<leftarrow>zip xs ys. x * y)\<^sup>2 \<le> (\<Sum>x\<leftarrow>xs. x * x) * (\<Sum>y\<leftarrow>(ys::real list). y * y)"
proof (induction xs ys rule: list_induct2)
  case Nil
  then show ?case by simp
next
  case (Cons x xs y ys)
  have "((\<Sum>(x, y)\<leftarrow>zip xs ys. x * y) + x * y)\<^sup>2
          \<le> ((\<Sum>x\<leftarrow>xs. x * x) + x * x) * ((\<Sum>y\<leftarrow>ys. y * y) + y * y)"
    by (rule cs_step [OF Cons.IH sum_squares_nonneg sum_squares_nonneg])
  then show ?case by (simp add: add.commute)
qed

lemma quotient_bound:
  fixes d m1 m2 :: real
  assumes "d\<^sup>2 \<le> m1 * m2" "0 \<le> m1" "0 \<le> m2" "sqrt m1 \<noteq> 0" "sqrt m2 \<noteq> 0"
  shows "\<bar>d / (sqrt m1 * sqrt m2)\<bar> \<le> 1"
proof -
  have pos: "0 < sqrt m1 * sqrt m2"
    using assms(2-5) by (simp add: less_le)
  have "\<bar>d\<bar> = sqrt (d\<^sup>2)" by simp
  also have "\<dots> \<le> sqrt (m1 * m2)" using assms(1) by (rule real_sqrt_le_mono)
  also have "\<dots> = sqrt m1 * sqrt m2" by (rule real_sqrt_mult)
  finally have le: "\<bar>d\<bar> \<le> sqrt m1 * sqrt m2" .
  have "\<bar>d / (sqrt m1 * sqrt m2)\<bar> = \<bar>d\<bar> / (sqrt m1 * sqrt m2)"
    using pos by (simp only: abs_divide abs_of_pos)
  also have "\<dots> \<le> 1"
    using le pos by (simp only: divide_le_eq_1_pos)
  finally show ?thesis .
qed

lemma calculateSimilarity_exact_abs_le_1: "\<bar>calculateSimilarity_exact a b\<bar> \<le> 1"
proof (cases "length a = length b")
  case False
  then show ?thesis by (simp add: calculateSimilarity_exact_def)
next
  case True
  show ?thesis
    using quotient_bound [OF cauchy_schwarz_lists [OF True] sum_squares_nonneg sum_squares_nonneg]
    by (simp add: calculateSimilarity_exact_def similarity_loop_sums [OF True] Let_def)
qed

section \<open>Cosine similarity on binary64 values\<close>

lemma isqrt_bounds: "isqrt n * isqrt n \<le> n \<and> n < (isqrt n + 1) * (isqrt n + 1)"
proof (induction n rule: isqrt.induct)
  case (1 n)
  show ?case
  proof (cases "n = 0")
    case True
    then show ?thesis by (simp add: isqrt.simps)
  next
    case False
    define s where "s = isqrt (n div 4)"
    from 1 [OF False] have lo: "s * s \<le> n div 4" and hi: "n div 4 < (s + 1) * (s + 1)"
      by (simp_all add: s_def)
    have "4 * (s * s) \<le> n"
      using lo by linarith
    moreover have "n < 4 * ((s + 1) * (s + 1))"
      using hi by linarith
    ultimately show ?thesis
      using False by (simp add: isqrt.simps [of n] isqrt_step_def s_def [symmetric] algebra_simps)
  qed
qed

lemma bit_length_bounds: "n \<noteq> 0 \<Longrightarrow> 2 ^ (bit_length n - 1) \<le> n \<and> n < 2 ^ bit_length n"
proof (induction n rule: bit_length.induct)
  case (1 n)
  show ?case
  proof (cases "n div 2 = 0")
    case True
    with 1(2) have "n = 1" by linarith
    then show ?thesis by (simp add: bit_length.simps)
  next
    case False
    define k where "k = n div 2"
    define b where "b = bit_length k"
    from 1(1) [OF 1(2) False] have lo: "2 ^ (b - 1) \<le> k" and hi: "k < 2 ^ b"
      by (simp_all add: k_def b_def)
    have bpos: "b \<noteq> 0"
      using False by (simp add: b_def k_def bit_length.simps [of "n div 2"])
    then have pw: "(2::nat) ^ b = 2 * 2 ^ (b - 1)"
      by (cases b) simp_all
    have n: "2 * k \<le> n" "n \<le> 2 * k + 1"
      by (simp_all add: k_def)
    have len: "bit_length n = Suc b"
      using 1(2) by (simp add: bit_length.simps [of n] b_def k_def)
    have "2 ^ b \<le> n"
      using lo n(1) pw by linarith
    moreover have "n < 2 * 2 ^ b"
      using hi n(2) by linarith
    ultimately show ?thesis
      by (simp add: len)
  qed
qed

lemmas double_eval = bit_length.simps isqrt.simps isqrt_step_def rne_def pack_def round_q_def
  round_at_def fl_of_def floorlog2_ratio_def round_ratio_def signed_def add_finite_def
  sqrt_rounded_def sqrt_even_def

lemma loop_double_norms:
  "length xs = length ys \<Longrightarrow>
   similarity_loop_double xs ys (d, a, b) =
     (fst (similarity_loop_double xs ys (d, a, b)),
      foldl (\<lambda>sum x. dadd sum (dmul x x)) a xs,
      foldl (\<lambda>sum y. dadd sum (dmul y y)) b ys)"
  by (induction xs ys arbitrary: d a b rule: list_induct2) simp_all

lemma square_of_zero: "is_zero x \<Longrightarrow> dmul x x = Finite False 0 0"
  by (cases x) (simp_all add: is_zero_def round_ratio_def)

lemma squares_of_zeros:
  "\<forall>x \<in> set v. is_zero x \<Longrightarrow>
   foldl (\<lambda>sum x. dadd sum (dmul x x)) (Finite False 0 0) v = Finite False 0 0"
  by (induction v) (simp_all add: square_of_zero add_finite_def signed_def)

lemma magnitude_of_zeros: "\<forall>x \<in> set v. is_zero x \<Longrightarrow> is_zero (magnitude_double v)"
  by (simp add: magnitude_double_def squares_of_zeros is_zero_def)

lemma similarity_double_zero_magnitude:
  assumes "is_zero (magnitude_double a) \<or> is_zero (magnitude_double b)"
  shows "calculateSimilarity_double a b = Finite False 0 0"
proof (cases "length a = length b")
  case False
  then show ?thesis by (simp add: calculateSimilarity_double_def)
next
  case True
  obtain d m1 m2 where loop: "similarity_loop_double a b
      (Finite False 0 0, Finite False 0 0, Finite False 0 0) = (d, m1, m2)"
    by (cases "similarity_loop_double a b (Finite False 0 0, Finite False 0 0, Finite False 0 0)")
  from loop_double_norms [OF True, of "Finite False 0 0" "Finite False 0 0" "Finite False 0 0"] loop
  have "dsqrt m1 = magnitude_double a" "dsqrt m2 = magnitude_double b"
    by (simp_all add: magnitude_double_def)
  with assms loop show ?thesis
    by (simp add: calculateSimilarity_double_def)
qed

text \<open>
  Claim C6, amended. \<open>calculateSimilarity\<close> is total (no input makes it fail) and
  returns exactly 0 when the dimensions differ and when either computed magnitude is
  zero, in particular when all components of either vector are zero. The cosine it
  computes lies in \<open>[-1, 1]\<close> in exact arithmetic; for the rounded binary64 result that
  the code returns no such bound is stated.
\<close>

theorem calculateSimilarity_degenerate:
  "(length a \<noteq> length b \<longrightarrow> calculateSimilarity_double a b = Finite False 0 0) \<and>
   (is_zero (magnitude_double a) \<or> is_zero (magnitude_double b) \<longrightarrow>
      calculateSimilarity_double a b = Finite False 0 0) \<and>
   ((\<forall>x \<in> set a. is_zero x) \<or> (\<forall>y \<in> set b. is_zero y) \<longrightarrow>
      calculateSimilarity_double a b = Finite False 0 0) \<and>
   - 1 \<le> calculateSimilarity_exact u v \<and> calculateSimilarity_exact u v \<le> 1"
proof -
  have "calculateSimilarity_double a b = Finite False 0 0"
    if "(\<forall>x \<in> set a. is_zero x) \<or> (\<forall>y \<in> set b. is_zero y)"
    using that magnitude_of_zeros [of a] magnitude_of_zeros [of b]
    by (blast intro: similarity_double_zero_magnitude)
  with calculateSimilarity_exact_abs_le_1 [of u v] similarity_double_zero_magnitude [of a b]
  show ?thesis
    by (auto simp add: calculateSimilarity_double_def)
qed

theorem calculateSimilarity_degenerate_witness:
  "length [Finite False 1 0, Finite False 2 0] \<noteq> length [Finite False 3 0] \<and>
   calculateSimilarity_double [Finite False 1 0, Finite False 2 0] [Finite False 3 0]
     = Finite False 0 0 \<and>
   is_zero (Finite False 0 0) \<and> is_zero (Finite True 0 0) \<and>
   calculateSimilarity_double [Finite False 0 0, Finite True 0 0]
                              [Finite False 3 0, Finite False 4 0] = Finite False 0 0 \<and>
   calculateSimilarity_exact [3, 4] [3, 4] \<le> 1"
proof -
  have z: "\<forall>x \<in> set [Finite False 0 0, Finite True 0 0]. is_zero x"
    by (simp add: is_zero_def)
  from calculateSimilarity_degenerate
         [of "[Finite False 1 0, Finite False 2 0]" "[Finite False 3 0]" "[3, 4]" "[3, 4]"]
  have one: "calculateSimilarity_double [Finite False 1 0, Finite False 2 0] [Finite False 3 0]
               = Finite False 0 0"
    and three: "calculateSimilarity_exact [3, 4] [3, 4] \<le> 1"
    by simp_all
  from calculateSimilarity_degenerate
         [of "[Finite False 0 0, Finite True 0 0]" "[Finite False 3 0, Finite False 4 0]"
             "[3, 4]" "[3, 4]"] z
  have two: "calculateSimilarity_double [Finite False 0 0, Finite True 0 0]
               [Finite False 3 0, Finite False 4 0] = Finite False 0 0"
    by blast
  from one two three show ?thesis
    by (simp add: is_zero_def)
qed

text \<open>
  For \<open>a = [1, 5]\<close> and \<open>b = [2, 10]\<close> the code returns \<open>1 + 2 ^ -52\<close>
  (1.0000000000000002), above 1; for \<open>a = b = [1e200]\<close> the squares overflow and the
  result is NaN.
\<close>

theorem calculateSimilarity_degenerate_counterexample:
  "valof (calculateSimilarity_double [Finite False 1 0, Finite False 5 0]
                                     [Finite False 2 0, Finite False 10 0])
     = Some (4503599627370497 / 2 ^ 52) \<and>
   (1::real) < 4503599627370497 / 2 ^ 52 \<and>
   calculateSimilarity_double [Finite False 5883593420661338 612]
                              [Finite False 5883593420661338 612] = NaN"
proof -
  have "calculateSimilarity_double [Finite False 1 0, Finite False 5 0]
                                   [Finite False 2 0, Finite False 10 0]
          = Finite False 4503599627370497 (- 52)"
    by (simp add: calculateSimilarity_double_def is_zero_def double_eval)
  moreover have "calculateSimilarity_double [Finite False 5883593420661338 612]
                              [Finite False 5883593420661338 612] = NaN"
    by (simp add: calculateSimilarity_double_def is_zero_def double_eval)
  ultimately show ?thesis
    by (simp add: valof_def)
qed

section \<open>Index rebuild\<close>

lemma memories_rebuildIndex: "memories (rebuildIndex E st) = memories st"
  by (simp add: rebuildIndex_def)

text \<open>
  Claim C3. Rebuilding the secondary indexes from the entry table is idempotent: a
  second rebuild yields the same index record, hence the same members in every bucket
  under every key. The rebuilt index depends on the table alone, not on the index that
  is discarded.
\<close>

theorem rebuildIndex_idempotent:
  "rebuildIndex E (rebuildIndex E st) = rebuildIndex E st \<and>
   index (rebuildIndex E (st\<lparr> index := ix \<rparr>)) = index (rebuildIndex E st)"
  by (simp add: rebuildIndex_def)

section \<open>The recent list\<close>

lemma recent_updateIndex:
  "recent (updateIndex E ix m) = take 100 (entry_id m # recent ix)"
  by (simp add: updateIndex_def recent_unshift_def Let_def)

lemma take_append_take: "take n (xs @ take n ys) = take n (xs @ ys)"
  by (simp add: take_append min_def)

lemma recent_foldl_updateIndex:
  "recent (foldl (updateIndex E) ix ms) = take 100 (rev (map entry_id ms) @ recent ix)"
    if "length (recent ix) \<le> 100"
  using that
proof (induction ms arbitrary: ix)
  case Nil
  then show ?case by simp
next
  case (Cons m ms)
  have "length (recent (updateIndex E ix m)) \<le> 100"
    by (simp add: recent_updateIndex)
  from Cons.IH [OF this] show ?case
    using take_append_take [of 100 "rev (map entry_id ms)" "entry_id m # recent ix"]
    by (simp add: recent_updateIndex)
qed

lemma index_access_loop: "index (access_loop clock k rs st) = index st"
  by (induction rs arbitrary: k st) simp_all

lemma index_performSemanticSearch: "index (snd (performSemanticSearch text st)) = index st"
  by (simp add: performSemanticSearch_def split: prod.splits)

lemma index_searchMemories: "index (snd (searchMemories E clock query st)) = index st"
  by (simp add: searchMemories_def Let_def index_access_loop index_performSemanticSearch
      split: prod.splits)
     (metis index_performSemanticSearch snd_conv)

lemma index_getMemory: "index (snd (getMemory now i st)) = index st"
  by (simp add: getMemory_def Let_def split: option.splits)

lemma recent_storeMemory:
  "recent (index (snd (storeMemory A E now rnd ty text md imp st))) =
     take 100 ((''memory-'' @ show_int now @ ''-'' @ rnd) # recent (index st))"
  by (simp add: storeMemory_def new_memory_def Let_def recent_updateIndex split: prod.splits)

lemma recent_step:
  "recent (index (step A E st op)) =
     take 100 (inserted_ids [op] @ recent (index st))" if "length (recent (index st)) \<le> 100"
  using that
  by (cases op) (simp_all add: recent_storeMemory index_getMemory index_searchMemories)

lemma recent_run:
  "recent (index (foldl (step A E) st ops)) = take 100 (rev (inserted_ids ops) @ recent (index st))"
    if "length (recent (index st)) \<le> 100"
  using that
proof (induction ops arbitrary: st)
  case Nil
  then show ?case by simp
next
  case (Cons op ops)
  have len: "length (recent (index (step A E st op))) \<le> 100"
    by (simp add: recent_step [OF Cons.prems])
  have ids: "inserted_ids (op # ops) = inserted_ids [op] @ inserted_ids ops"
    by (cases op) simp_all
  have one: "rev (inserted_ids [op]) = inserted_ids [op]"
    by (cases op) simp_all
  have "recent (index (foldl (step A E) st (op # ops))) =
          recent (index (foldl (step A E) (step A E st op) ops))"
    by simp
  also have "\<dots> = take 100 (rev (inserted_ids ops) @ recent (index (step A E st op)))"
    by (rule Cons.IH [OF len])
  also have "\<dots> = take 100 (rev (inserted_ids ops) @ take 100 (inserted_ids [op] @ recent (index st)))"
    by (simp only: recent_step [OF Cons.prems])
  also have "\<dots> = take 100 (rev (inserted_ids ops) @ inserted_ids [op] @ recent (index st))"
    by (rule take_append_take)
  also have "\<dots> = take 100 (rev (inserted_ids (op # ops)) @ recent (index st))"
    by (simp only: ids rev_append one append_assoc)
  finally show ?case .
qed

text \<open>
  Claim C8. After any sequence of store, lookup and search calls on a fresh manager the
  recent list holds the ids of the inserted entries, newest first, cut to 100; the same
  holds for entries replayed into an empty index. Lookups and searches leave the list
  as it is.
\<close>

theorem recent_insertion_order:
  "recent (index (foldl (step A E) fresh_manager ops)) = take 100 (rev (inserted_ids ops)) \<and>
   length (recent (index (foldl (step A E) fresh_manager ops))) \<le> 100 \<and>
   recent (foldl (updateIndex E) initializeIndex ms) = take 100 (rev (map entry_id ms)) \<and>
   recent (index (snd (getMemory now i st))) = recent (index st) \<and>
   recent (index (snd (searchMemories E clock query st))) = recent (index st)"
proof -
  have "length (recent (index fresh_manager)) \<le> 100"
    by (simp add: fresh_manager_def initializeIndex_def)
  from recent_run [OF this, of A E ops]
  have run: "recent (index (foldl (step A E) fresh_manager ops)) = take 100 (rev (inserted_ids ops))"
    by (simp add: fresh_manager_def initializeIndex_def)
  have "length (recent initializeIndex) \<le> 100"
    by (simp add: initializeIndex_def)
  from recent_foldl_updateIndex [OF this, of E ms]
  have load: "recent (foldl (updateIndex E) initializeIndex ms) = take 100 (rev (map entry_id ms))"
    by (simp add: initializeIndex_def)
  show ?thesis
    by (simp add: run load index_getMemory index_searchMemories)
qed

section \<open>Eviction\<close>

lemma delete_loop_completed:
  "delete_loop E ids st = (Inr u, st') \<Longrightarrow>
   memories st' = filter (\<lambda>m. entry_id m \<notin> set ids) (memories st)"
proof (induction ids arbitrary: st)
  case Nil
  then show ?case by simp
next
  case (Cons i ids)
  let ?st1 = "st\<lparr> memories := table_delete i (memories st),
                   delete_calls := delete_calls st @ [i] \<rparr>"
  from Cons.prems have ok: "\<not> delete_fails E i" and rest: "delete_loop E ids ?st1 = (Inr u, st')"
    by (auto simp add: Let_def split: if_splits)
  from Cons.IH [OF rest] show ?case
    by (simp add: table_delete_def conj_commute)
qed

lemma delete_loop_keeps:
  "delete_loop E ids st = (r, st') \<Longrightarrow> m \<in> set (memories st) \<Longrightarrow> entry_id m \<notin> set ids \<Longrightarrow>
   m \<in> set (memories st')"
proof (induction ids arbitrary: st)
  case Nil
  then show ?case by simp
next
  case (Cons i ids)
  let ?st1 = "st\<lparr> memories := table_delete i (memories st),
                   delete_calls := delete_calls st @ [i] \<rparr>"
  have in1: "m \<in> set (memories ?st1)"
    using Cons.prems(2,3) by (simp add: table_delete_def)
  show ?case
  proof (cases "delete_fails E i")
    case True
    with Cons.prems(1) have "st' = ?st1" by (simp add: Let_def)
    with in1 show ?thesis by simp
  next
    case False
    with Cons.prems(1) have "delete_loop E ids ?st1 = (r, st')" by (simp add: Let_def)
    from Cons.IH [OF this in1] Cons.prems(3) show ?thesis by simp
  qed
qed

lemma toRemove_iff:
  assumes "distinct (map entry_id ms)" "m \<in> set ms"
  shows "entry_id m \<in> set (toRemove now ms) \<longleftrightarrow>
         importance m < 0.3 \<and> lastAccessed m < cutoffDate now \<and> accessCount m < 3"
proof -
  have "m' = m" if "m' \<in> set ms" "entry_id m' = entry_id m" for m'
    using assms that by (meson distinct_map inj_onD)
  then show ?thesis
    using assms(2) by (auto simp add: toRemove_def)
qed

text \<open>
  Claim C1, amended. When every durable delete succeeds (the call returns normally), an
  entry of the table is removed by \<open>optimizeMemory\<close> if and only if its importance is
  below 0.3, its last access is older than the 30-day cutoff and its access count is
  below 3. In every run, an entry for which one of the three conditions fails is retained.
\<close>

theorem optimizeMemory_eviction:
  assumes "distinct (map entry_id (memories st))"
    and "optimizeMemory E now st = (r, st')"
    and "m \<in> set (memories st)"
  shows "(r = Inr () \<longrightarrow>
            (m \<notin> set (memories st') \<longleftrightarrow>
               importance m < 0.3 \<and> lastAccessed m < now - 30 * 24 * 60 * 60 * 1000
               \<and> accessCount m < 3)) \<and>
         (\<not> (importance m < 0.3 \<and> lastAccessed m < now - 30 * 24 * 60 * 60 * 1000
               \<and> accessCount m < 3) \<longrightarrow> m \<in> set (memories st'))"
proof -
  obtain r1 st1 where loop: "delete_loop E (toRemove now (memories st)) st = (r1, st1)"
    by (cases "delete_loop E (toRemove now (memories st)) st")
  have mem: "memories st' = memories st1"
    using assms(2) loop by (cases r1) (auto simp add: optimizeMemory_def memories_rebuildIndex)
  have res: "r = Inr () \<Longrightarrow> \<exists>u. r1 = Inr u"
    using assms(2) loop by (cases r1) (auto simp add: optimizeMemory_def)
  note iff = toRemove_iff [OF assms(1,3), of now, unfolded cutoffDate_def]
  have keep: "m \<in> set (memories st')" if "entry_id m \<notin> set (toRemove now (memories st))"
    using delete_loop_keeps [OF loop assms(3) that] mem by simp
  have gone: "m \<notin> set (memories st')"
    if "r = Inr ()" "entry_id m \<in> set (toRemove now (memories st))"
  proof -
    from res [OF that(1)] obtain u where "r1 = Inr u" ..
    with loop have "memories st1 = filter (\<lambda>m. entry_id m \<notin> set (toRemove now (memories st))) (memories st)"
      by (simp add: delete_loop_completed)
    with that(2) mem show ?thesis by simp
  qed
  from keep gone iff show ?thesis by blast
qed

text \<open>Scenario of the specification: three entries, only the second is evicted.\<close>

theorem optimizeMemory_eviction_witness:
  "distinct (map entry_id (memories (example_manager
      [example_entry ''e1'' 0.9 0 0, example_entry ''e2'' 0.1 0 0, example_entry ''e3'' 0.5 5 0]))) \<and>
   fst (optimizeMemory (example_runtime False) 3456000000 (example_manager
      [example_entry ''e1'' 0.9 0 0, example_entry ''e2'' 0.1 0 0, example_entry ''e3'' 0.5 5 0]))
     = Inr () \<and>
   example_entry ''e2'' 0.1 0 0 \<in> set (memories (example_manager
      [example_entry ''e1'' 0.9 0 0, example_entry ''e2'' 0.1 0 0, example_entry ''e3'' 0.5 5 0])) \<and>
   example_entry ''e2'' 0.1 0 0 \<notin> set (memories (snd (optimizeMemory (example_runtime False) 3456000000
      (example_manager
        [example_entry ''e1'' 0.9 0 0, example_entry ''e2'' 0.1 0 0, example_entry ''e3'' 0.5 5 0])))) \<and>
   example_entry ''e3'' 0.5 5 0 \<in> set (memories (snd (optimizeMemory (example_runtime False) 3456000000
      (example_manager
        [example_entry ''e1'' 0.9 0 0, example_entry ''e2'' 0.1 0 0, example_entry ''e3'' 0.5 5 0]))))"
proof -
  let ?st = "example_manager
      [example_entry ''e1'' 0.9 0 0, example_entry ''e2'' 0.1 0 0, example_entry ''e3'' 0.5 5 0]"
  let ?out = "optimizeMemory (example_runtime False) 3456000000 ?st"
  have d: "distinct (map entry_id (memories ?st))"
    by (simp add: example_manager_def example_entry_def)
  have run: "?out = (fst ?out, snd ?out)" by simp
  have ok: "fst ?out = Inr ()"
    by (simp add: optimizeMemory_def toRemove_def cutoffDate_def example_manager_def
        example_entry_def example_runtime_def table_delete_def Let_def)
  have m2: "example_entry ''e2'' 0.1 0 0 \<in> set (memories ?st)"
    and m3: "example_entry ''e3'' 0.5 5 0 \<in> set (memories ?st)"
    by (simp_all add: example_manager_def)
  from optimizeMemory_eviction [OF d run m2] optimizeMemory_eviction [OF d run m3] d ok m2
  show ?thesis
    by (simp add: example_entry_def cutoffDate_def)
qed

text \<open>
  When the storage backend rejects the first durable delete, the second marked entry
  stays in the table although it satisfies all three conditions.
\<close>

theorem optimizeMemory_eviction_counterexample:
  "example_entry ''e2'' 0.1 0 0 \<in> set (memories (snd (optimizeMemory (example_runtime True) 3456000000
      (example_manager [example_entry ''e1'' 0.2 1 0, example_entry ''e2'' 0.1 0 0])))) \<and>
   importance (example_entry ''e2'' 0.1 0 0) < 0.3 \<and>
   lastAccessed (example_entry ''e2'' 0.1 0 0) < 3456000000 - 30 * 24 * 60 * 60 * 1000 \<and>
   accessCount (example_entry ''e2'' 0.1 0 0) < 3"
  by (simp add: optimizeMemory_def toRemove_def cutoffDate_def example_manager_def
      example_entry_def example_runtime_def table_delete_def Let_def)

section \<open>Ingestion\<close>

lemma storeMemory_unfold:
  "storeMemory A E now rnd ty text md imp st =
     (let memory = build_memory A now rnd ty text md imp st;
          st1 = st\<lparr> memories := table_set memory (memories st),
                     index := updateIndex E (index st) memory,
                     embeddingCache := snd (generateEmbedding (embeddingCache st) text),
                     save_calls := save_calls st @ [entry_id memory] \<rparr>
      in if save_fails E memory then (Inl PersistenceError, st1)
         else (Inr memory, st1\<lparr> stats_created := stats_created st1 + 1 \<rparr>))"
  by (simp add: storeMemory_def build_memory_def Let_def split: prod.splits)

lemma table_get_table_set: "table_get (table_set m t) (entry_id m) = Some m"
  by (induction t) simp_all

lemma set_table_set: "set (table_set m t) \<subseteq> insert m (set t)"
  by (induction t) auto

lemma mem_table_set: "m \<in> set (table_set m t)"
  by (induction t) simp_all

text \<open>
  Claim C7. If the durable write made by \<open>storeMemory\<close> fails, the call ends with the
  persistence error, the new entry is in the table (a lookup by its id finds it) and
  the index holds the update for it, and the write has been attempted exactly once.
\<close>

theorem storeMemory_persistence_failure:
  assumes "save_fails E (build_memory A now rnd ty text md imp st)"
  shows "fst (storeMemory A E now rnd ty text md imp st) = Inl PersistenceError \<and>
         table_get (memories (snd (storeMemory A E now rnd ty text md imp st)))
             (entry_id (build_memory A now rnd ty text md imp st))
           = Some (build_memory A now rnd ty text md imp st) \<and>
         build_memory A now rnd ty text md imp st
           \<in> set (memories (snd (storeMemory A E now rnd ty text md imp st))) \<and>
         index (snd (storeMemory A E now rnd ty text md imp st))
           = updateIndex E (index st) (build_memory A now rnd ty text md imp st) \<and>
         save_calls (snd (storeMemory A E now rnd ty text md imp st))
           = save_calls st @ [entry_id (build_memory A now rnd ty text md imp st)]"
  using assms
  by (simp add: storeMemory_unfold Let_def table_get_table_set mem_table_set)

theorem storeMemory_persistence_failure_witness:
  "save_fails (example_runtime True)
     (build_memory example_analyzer 1000 ''k3j9x0a1b'' Research ''react hooks'' no_overrides 0.5
        fresh_manager) \<and>
   fst (storeMemory example_analyzer (example_runtime True) 1000 ''k3j9x0a1b'' Research
          ''react hooks'' no_overrides 0.5 fresh_manager) = Inl PersistenceError \<and>
   save_calls (snd (storeMemory example_analyzer (example_runtime True) 1000 ''k3j9x0a1b'' Research
          ''react hooks'' no_overrides 0.5 fresh_manager)) = [''memory-1000-k3j9x0a1b'']"
proof -
  have f: "save_fails (example_runtime True)
     (build_memory example_analyzer 1000 ''k3j9x0a1b'' Research ''react hooks'' no_overrides 0.5
        fresh_manager)"
    by (simp add: example_runtime_def)
  have i: "entry_id (build_memory example_analyzer 1000 ''k3j9x0a1b'' Research ''react hooks''
             no_overrides 0.5 fresh_manager) = ''memory-1000-k3j9x0a1b''"
    by (simp add: build_memory_def new_memory_def Let_def show_int_def show_nat.simps digit_char_def)
  from storeMemory_persistence_failure [OF f] f i show ?thesis
    by (simp add: fresh_manager_def)
qed

section \<open>Tags and keywords\<close>

lemma uniq_acc_set:
  "set (foldl (\<lambda>seen x. if x \<in> set seen then seen else seen @ [x]) acc xs) = set acc \<union> set xs"
  by (induction xs arbitrary: acc) auto

lemma uniq_acc_distinct:
  "distinct acc \<Longrightarrow> distinct (foldl (\<lambda>seen x. if x \<in> set seen then seen else seen @ [x]) acc xs)"
  by (induction xs arbitrary: acc) auto

lemma set_uniq: "set (uniq xs) = set xs"
  by (simp add: uniq_def uniq_acc_set)

lemma distinct_uniq: "distinct (uniq xs)"
  by (simp add: uniq_def uniq_acc_distinct)

lemma tags_build_memory:
  "tags (build_memory A now rnd ty text md imp st) = uniq (or_empty (p_keywords md) @ extractKeywords A text)"
  "md_keywords (metadata (build_memory A now rnd ty text md imp st))
     = uniq (or_empty (p_keywords md) @ extractKeywords A text)"
  by (simp_all add: build_memory_def new_memory_def analyzeContent_def Let_def)

lemma table_get_Some: "table_get t i = Some m \<Longrightarrow> m \<in> set t \<and> entry_id m = i"
  by (induction t) (auto split: if_splits)

lemma memories_access_loop:
  "\<forall>m \<in> set (memories st). tags m = md_keywords (metadata m) \<Longrightarrow>
   \<forall>m \<in> set (memories (access_loop clock k rs st)). tags m = md_keywords (metadata m)"
proof (induction rs arbitrary: k st)
  case Nil
  then show ?case by simp
next
  case (Cons r rs)
  have "\<forall>m \<in> set (memories (st\<lparr> memories := touch (entry_id (entry r)) (clock k) (memories st),
             stats_accessed := stats_accessed st + 1 \<rparr>)). tags m = md_keywords (metadata m)"
    using Cons.prems by (auto simp add: touch_def)
  from Cons.IH [OF this] show ?case by simp
qed

lemma semantic_branch_state:
  assumes "(if c then performSemanticSearch text st else ([], st)) = (rs, st1)"
  shows "memories st1 = memories st \<and> index st1 = index st"
  using assms by (auto simp add: performSemanticSearch_def split: if_splits prod.splits)

lemma tags_match_searchMemories:
  assumes "tags_match st"
  shows "tags_match (snd (searchMemories E clock query st))"
proof -
  obtain rs st1 where st1: "(if q_semanticSearch query \<and> has_text query
              then performSemanticSearch (the (q_text query)) st else ([], st)) = (rs, st1)"
    by (cases "(if q_semanticSearch query \<and> has_text query
              then performSemanticSearch (the (q_text query)) st else ([], st))")
  note same = semantic_branch_state [OF st1]
  from assms same have "\<forall>m \<in> set (memories st1). tags m = md_keywords (metadata m)"
    by (simp add: tags_match_def)
  from memories_access_loop [OF this] assms same show ?thesis
    by (simp add: searchMemories_def Let_def st1 tags_match_def index_access_loop)
qed

lemma tags_match_getMemory:
  assumes "tags_match st"
  shows "tags_match (snd (getMemory now i st))"
proof (cases "table_get (memories st) i")
  case None
  with assms show ?thesis by (simp add: getMemory_def)
next
  case (Some m)
  from table_get_Some [OF Some] assms have "tags m = md_keywords (metadata m)"
    by (simp add: tags_match_def)
  with assms set_table_set [of "m\<lparr> accessCount := accessCount m + 1, lastAccessed := now \<rparr>" "memories st"]
  show ?thesis
    by (auto simp add: getMemory_def Some Let_def tags_match_def)
qed

lemma tags_match_storeMemory:
  assumes "tags_match st"
  shows "tags_match (snd (storeMemory A E now rnd ty text md imp st))"
proof -
  let ?m = "build_memory A now rnd ty text md imp st"
  have eq: "tags ?m = md_keywords (metadata ?m)"
    by (simp add: tags_build_memory)
  have ix: "byTag (updateIndex E (index st) ?m) = byKeyword (updateIndex E (index st) ?m)"
    using assms eq by (simp add: updateIndex_def Let_def tags_match_def)
  from assms eq set_table_set [of ?m "memories st"] ix show ?thesis
    by (auto simp add: storeMemory_unfold Let_def tags_match_def)
qed

lemma tags_match_step: "tags_match st \<Longrightarrow> tags_match (step A E st op)"
  by (cases op) (simp_all add: tags_match_storeMemory tags_match_getMemory tags_match_searchMemories)

lemma tags_match_run: "tags_match st \<Longrightarrow> tags_match (foldl (step A E) st ops)"
  by (induction ops arbitrary: st) (simp_all add: tags_match_step)

lemma tags_match_fresh: "tags_match fresh_manager"
  by (simp add: tags_match_def fresh_manager_def initializeIndex_def)

text \<open>
  Claim C10. The entry built by the store path has its tag list equal to its keyword
  list, the deduplicated merge of the caller's keywords and the extracted ones; in every
  state reached from a fresh manager by store, lookup and search calls each entry has
  tags equal to keywords, and the tag index equals the keyword index (so each entry is
  filed under the same keys in both).
\<close>

theorem store_tags_equal_keywords:
  "tags (build_memory A now rnd ty text md imp st)
     = md_keywords (metadata (build_memory A now rnd ty text md imp st)) \<and>
   tags (build_memory A now rnd ty text md imp st)
     = uniq (or_empty (p_keywords md) @ extractKeywords A text) \<and>
   distinct (tags (build_memory A now rnd ty text md imp st)) \<and>
   (\<forall>m \<in> set (memories (foldl (step A E) fresh_manager ops)). tags m = md_keywords (metadata m)) \<and>
   byTag (index (foldl (step A E) fresh_manager ops))
     = byKeyword (index (foldl (step A E) fresh_manager ops))"
  using tags_match_run [OF tags_match_fresh, of A E ops]
  by (simp add: tags_build_memory distinct_uniq tags_match_def)

theorem store_tags_equal_keywords_witness:
  "tags (build_memory example_analyzer 1000 ''k3j9x0a1b'' Research ''react hooks react''
           no_overrides 1 fresh_manager) = [''react'', ''hooks''] \<and>
   md_keywords (metadata (build_memory example_analyzer 1000 ''k3j9x0a1b'' Research
           ''react hooks react'' no_overrides 1 fresh_manager)) = [''react'', ''hooks''] \<and>
   map tags (memories (foldl (step example_analyzer (example_runtime False)) fresh_manager
           [OpStore 1000 ''k3j9x0a1b'' Research ''react hooks react'' no_overrides 1]))
     = [[''react'', ''hooks'']]"
proof -
  let ?m = "build_memory example_analyzer 1000 ''k3j9x0a1b'' Research ''react hooks react''
             no_overrides 1 fresh_manager"
  note inst = store_tags_equal_keywords [of example_analyzer 1000 "''k3j9x0a1b''" Research
      "''react hooks react''" no_overrides 1 fresh_manager "example_runtime False"
      "[OpStore 1000 ''k3j9x0a1b'' Research ''react hooks react'' no_overrides 1]"]
  have u: "uniq (or_empty (p_keywords no_overrides) @ extractKeywords example_analyzer ''react hooks react'')
             = [''react'', ''hooks'']"
    by (simp add: uniq_def or_empty_def no_overrides_def example_analyzer_def
        split_ws_def toLowerCase_def toLowerCase_char_def is_space_def)
  from inst have "tags ?m = uniq (or_empty (p_keywords no_overrides)
                      @ extractKeywords example_analyzer ''react hooks react'')"
    by blast
  then have t: "tags ?m = [''react'', ''hooks'']"
    by (simp only: u)
  from inst have k: "md_keywords (metadata ?m) = tags ?m"
    by simp
  have "memories (foldl (step example_analyzer (example_runtime False)) fresh_manager
           [OpStore 1000 ''k3j9x0a1b'' Research ''react hooks react'' no_overrides 1]) = [?m]"
    by (simp add: storeMemory_unfold Let_def fresh_manager_def example_runtime_def)
  with t k show ?thesis by simp
qed

section \<open>Relation finder\<close>

lemma sharedEntities_nonempty:
  "sharedEntities memory x \<noteq> [] \<longleftrightarrow> shares_entity memory x"
  unfolding sharedEntities_def shares_entity_def filter_empty_conv
  by (simp, rule iffI; metis)

lemma sharedKeywords_count:
  assumes "distinct (md_keywords (metadata memory))"
  shows "length (sharedKeywords memory x) \<ge> 2 \<longleftrightarrow> shares_two_keywords memory x"
proof -
  have "length (sharedKeywords memory x)
          = card ({k. k \<in> set (md_keywords (metadata x))} \<inter> set (md_keywords (metadata memory)))"
    unfolding sharedKeywords_def by (rule distinct_length_filter [OF assms])
  then show ?thesis
    by (simp add: shares_two_keywords_def Int_commute)
qed

lemma entity_pass_eq:
  "entity_pass memory related table =
     related @ map entry_id (filter (\<lambda>x. entry_id x \<noteq> entry_id memory \<and> shares_entity memory x) table)"
  by (induction table arbitrary: related) (simp_all add: sharedEntities_nonempty)

lemma keyword_pass_eq:
  assumes "distinct (map entry_id table)"
  shows "keyword_pass memory related table =
     related @ map entry_id
       (filter (\<lambda>x. entry_id x \<noteq> entry_id memory \<and> entry_id x \<notin> set related
                    \<and> length (sharedKeywords memory x) \<ge> 2) table)"
  using assms
proof (induction table arbitrary: related)
  case Nil
  then show ?case by simp
next
  case (Cons x xs)
  from Cons.prems have d: "distinct (map entry_id xs)" and fresh: "entry_id x \<notin> entry_id ` set xs"
    by simp_all
  have same: "filter (\<lambda>y. entry_id y \<noteq> entry_id memory \<and> entry_id y \<notin> set (related @ [entry_id x])
                    \<and> length (sharedKeywords memory y) \<ge> 2) xs
            = filter (\<lambda>y. entry_id y \<noteq> entry_id memory \<and> entry_id y \<notin> set related
                    \<and> length (sharedKeywords memory y) \<ge> 2) xs"
    using fresh by (intro filter_cong) (auto simp add: image_iff)
  show ?case
    using Cons.IH [OF d, of related] Cons.IH [OF d, of "related @ [entry_id x]"] same
    by simp
qed

lemma findRelatedMemories_eq:
  assumes "distinct (map entry_id table)" "distinct (md_keywords (metadata memory))"
  shows "findRelatedMemories table memory =
     take 10
       (map entry_id (filter (shares_entity memory)
                        (filter (\<lambda>x. entry_id x \<noteq> entry_id memory) table)) @
        map entry_id (filter (\<lambda>x. \<not> shares_entity memory x \<and> shares_two_keywords memory x)
                        (filter (\<lambda>x. entry_id x \<noteq> entry_id memory) table)))"
proof -
  let ?first = "map entry_id (filter (\<lambda>x. entry_id x \<noteq> entry_id memory \<and> shares_entity memory x) table)"
  have inj: "inj_on entry_id (set table)"
    using assms(1) by (simp add: distinct_map)
  have in_first: "entry_id x \<in> set ?first \<longleftrightarrow> entry_id x \<noteq> entry_id memory \<and> shares_entity memory x"
    if "x \<in> set table" for x
    using that inj by (auto dest: inj_onD)
  have second: "filter (\<lambda>x. entry_id x \<noteq> entry_id memory \<and> entry_id x \<notin> set ?first
                    \<and> length (sharedKeywords memory x) \<ge> 2) table
       = filter (\<lambda>x. \<not> shares_entity memory x \<and> shares_two_keywords memory x)
                        (filter (\<lambda>x. entry_id x \<noteq> entry_id memory) table)"
    unfolding filter_filter
    by (rule filter_cong [OF refl]) (use in_first sharedKeywords_count [OF assms(2)] in auto)
  have first: "?first = map entry_id (filter (shares_entity memory)
                        (filter (\<lambda>x. entry_id x \<noteq> entry_id memory) table))"
    by (simp add: conj_commute)
  have "findRelatedMemories table memory =
          take 10 (?first @ map entry_id
            (filter (\<lambda>x. entry_id x \<noteq> entry_id memory \<and> entry_id x \<notin> set ?first
                    \<and> length (sharedKeywords memory x) \<ge> 2) table))"
    by (simp only: findRelatedMemories_def entity_pass_eq keyword_pass_eq [OF assms(1)] append_Nil)
  also have "\<dots> = take 10 (?first @ map entry_id
            (filter (\<lambda>x. \<not> shares_entity memory x \<and> shares_two_keywords memory x)
                        (filter (\<lambda>x. entry_id x \<noteq> entry_id memory) table)))"
    by (simp only: second)
  finally show ?thesis
    by (simp only: first)
qed

lemma keywords_new_memory:
  "md_keywords (metadata (new_memory A now rnd ty text md imp emb))
     = uniq (or_empty (p_keywords md) @ extractKeywords A text)"
  by (simp add: new_memory_def analyzeContent_def Let_def)

text \<open>
  Claim C5. For a new entry built by the store path and a table with distinct ids, the
  relation finder returns the first ten ids of: the entries other than the new one that
  share an (entity type, entity name) pair with it, in table order, followed by the
  other entries not found by the first pass that share at least two keywords with it,
  in table order. No score enters the order.
\<close>

theorem findRelatedMemories_two_passes:
  assumes "distinct (map entry_id table)"
    and "memory = new_memory A now rnd ty text md imp emb"
  shows "findRelatedMemories table memory =
     take 10
       (map entry_id (filter (shares_entity memory)
                        (filter (\<lambda>x. entry_id x \<noteq> entry_id memory) table)) @
        map entry_id (filter (\<lambda>x. \<not> shares_entity memory x \<and> shares_two_keywords memory x)
                        (filter (\<lambda>x. entry_id x \<noteq> entry_id memory) table))) \<and>
     length (findRelatedMemories table memory) \<le> 10"
proof -
  have "distinct (md_keywords (metadata memory))"
    by (simp add: assms(2) keywords_new_memory distinct_uniq)
  from findRelatedMemories_eq [OF assms(1) this] show ?thesis
    by (simp add: findRelatedMemories_def)
qed

theorem findRelatedMemories_two_passes_witness:
  "distinct (map entry_id
      [with_keywords [''vue''] (example_entry ''e1'' 1 0 0),
       with_keywords [''react'', ''hooks''] (example_entry ''e2'' 1 0 0)]) \<and>
   findRelatedMemories
      [with_keywords [''vue''] (example_entry ''e1'' 1 0 0),
       with_keywords [''react'', ''hooks''] (example_entry ''e2'' 1 0 0)]
      (new_memory example_analyzer 1000 ''k3j9x0a1b'' Research ''react hooks state'' no_overrides 1 [])
    = [''e2'']"
proof -
  let ?table = "[with_keywords [''vue''] (example_entry ''e1'' 1 0 0),
       with_keywords [''react'', ''hooks''] (example_entry ''e2'' 1 0 0)]"
  let ?m = "new_memory example_analyzer 1000 ''k3j9x0a1b'' Research ''react hooks state'' no_overrides 1 []"
  have d: "distinct (map entry_id ?table)"
    by (simp add: with_keywords_def example_entry_def)
  have kw: "md_keywords (metadata ?m) = [''react'', ''hooks'', ''state'']"
    by (simp add: keywords_new_memory uniq_def or_empty_def no_overrides_def example_analyzer_def
        split_ws_def toLowerCase_def toLowerCase_char_def is_space_def)
  have ents: "entities (metadata ?m) = []"
    by (simp add: new_memory_def analyzeContent_def Let_def or_empty_def no_overrides_def
        example_analyzer_def)
  have i: "entry_id ?m = ''memory-1000-k3j9x0a1b''"
    by (simp add: new_memory_def Let_def show_int_def show_nat.simps digit_char_def)
  have c: "card {''react'', ''hooks''} = 2"
    by simp
  have eq: "findRelatedMemories ?table ?m =
     take 10
       (map entry_id (filter (shares_entity ?m)
                        (filter (\<lambda>x. entry_id x \<noteq> entry_id ?m) ?table)) @
        map entry_id (filter (\<lambda>x. \<not> shares_entity ?m x \<and> shares_two_keywords ?m x)
                        (filter (\<lambda>x. entry_id x \<noteq> entry_id ?m) ?table)))"
    using findRelatedMemories_two_passes [OF d refl] by (rule conjunct1)
  have "findRelatedMemories ?table ?m = [''e2'']"
    unfolding eq
    by (simp add: shares_entity_def shares_two_keywords_def kw ents i with_keywords_def
        example_entry_def example_metadata_def c)
  with d show ?thesis by simp
qed

section \<open>Embeddings of one-word texts\<close>

lemma squares_foldl:
  "foldl (\<lambda>sum val. sum + val * val) a v = a + (\<Sum>x\<leftarrow>(v::real list). x * x)"
  by (induction v arbitrary: a) simp_all

lemma sum_list_unit:
  "d < n \<Longrightarrow> sum_list ((replicate n (0::real))[d := c]) = c"
proof (induction n arbitrary: d)
  case 0
  then show ?case by simp
next
  case (Suc n)
  then show ?case by (cases d) (simp_all add: sum_list_replicate)
qed

lemma normalize_unit:
  assumes "d < n" "0 < c"
  shows "normalizeVector ((replicate n 0)[d := c]) = (replicate n 0)[d := 1]"
proof -
  have "sqrt (c * c) = c"
    using assms(2) by simp
  then show ?thesis
    using assms by (simp add: normalizeVector_def squares_foldl sum_list_unit map_update)
qed

lemma computeTFIDF_single_pos: "0 < computeTFIDF w (Suc 0) (Suc 0)"
  by (simp add: computeTFIDF_def Let_def)

lemma single_token_embedding:
  assumes "tokenize text = [w]"
  shows "computeSimpleEmbedding text = (replicate 384 0)[hashWordToDimension w := 1]"
proof -
  have d: "hashWordToDimension w < 384"
    by (simp add: hashWordToDimension_def EMBEDDING_DIMENSION_def)
  have "computeSimpleEmbedding text
          = normalizeVector ((replicate 384 0)[hashWordToDimension w := computeTFIDF w 1 1])"
    using d by (simp add: computeSimpleEmbedding_def assms computeWordFrequency_def Let_def
        EMBEDDING_DIMENSION_def)
  then show ?thesis
    by (simp add: normalize_unit [OF d computeTFIDF_single_pos])
qed

lemma tokenize_AaAa: "tokenize ''AaAa'' = [''aaaa'']"
  by code_simp

lemma tokenize_BBBB: "tokenize ''BBBB'' = [''bbbb'']"
  by code_simp


lemma dimension_aaaa: "hashWordToDimension ''aaaa'' = 64"
  by (simp add: hashWordToDimension_def string_hash_def hash_step_def EMBEDDING_DIMENSION_def)

lemma dimension_bbbb: "hashWordToDimension ''bbbb'' = 128"
  by (simp add: hashWordToDimension_def string_hash_def hash_step_def EMBEDDING_DIMENSION_def)

lemma cache_key_collision: "getCacheKey ''AaAa'' = getCacheKey ''BBBB''"
  by (simp add: getCacheKey_def string_hash_def hash_step_def)

text \<open>
  Claim C9, at the failing input. A fresh engine embeds \<open>BBBB\<close> as the unit vector of
  dimension 128. The text \<open>AaAa\<close> has the same cache key, so an engine that has embedded
  \<open>AaAa\<close> before returns for \<open>BBBB\<close> the vector of \<open>AaAa\<close> (dimension 64); the
  same happens on one instance that embeds \<open>BBBB\<close>, clears its cache, embeds \<open>AaAa\<close>
  and embeds \<open>BBBB\<close> again. The result depends on the cache, not on the text alone.
\<close>

theorem generateEmbedding_cache_collision:
  "fst (generateEmbedding Map.empty ''BBBB'') = (replicate 384 0)[128 := 1] \<and>
   fst (generateEmbedding (snd (generateEmbedding Map.empty ''AaAa'')) ''BBBB'')
     = (replicate 384 0)[64 := 1] \<and>
   fst (generateEmbedding
          (snd (generateEmbedding (clearCache (snd (generateEmbedding Map.empty ''BBBB'')))
                  ''AaAa'')) ''BBBB'')
     = (replicate 384 0)[64 := 1] \<and>
   (replicate 384 (0::real))[64 := 1] \<noteq> (replicate 384 0)[128 := 1]"
proof -
  have a: "computeSimpleEmbedding ''AaAa'' = (replicate 384 0)[64 := 1]"
    using single_token_embedding [OF tokenize_AaAa] by (simp only: dimension_aaaa)
  have b: "computeSimpleEmbedding ''BBBB'' = (replicate 384 0)[128 := 1]"
    using single_token_embedding [OF tokenize_BBBB] by (simp only: dimension_bbbb)
  have hit: "fst (generateEmbedding (snd (generateEmbedding Map.empty ''AaAa'')) ''BBBB'')
                 = computeSimpleEmbedding ''AaAa''"
    by (simp add: generateEmbedding_def Let_def cache_key_collision)
  have miss: "fst (generateEmbedding Map.empty ''BBBB'') = computeSimpleEmbedding ''BBBB''"
    by (simp add: generateEmbedding_def Let_def)
  have cleared: "clearCache (snd (generateEmbedding Map.empty ''BBBB'')) = Map.empty"
    by (simp add: clearCache_def)
  have "(replicate 384 (0::real))[64 := 1] ! 64 \<noteq> (replicate 384 0)[128 := 1] ! 64"
    by simp
  then have "(replicate 384 (0::real))[64 := 1] \<noteq> (replicate 384 0)[128 := 1]"
    by metis
  with hit miss a b show ?thesis
    by (simp only: cleared) simp
qed

text \<open>Two calls in a row on the same text agree, whatever the cache holds.\<close>

lemma generateEmbedding_twice:
  "fst (generateEmbedding (snd (generateEmbedding cache text)) text)
     = fst (generateEmbedding cache text)"
  by (simp add: generateEmbedding_def Let_def split: option.splits)

section \<open>Text scoring\<close>

lemma term_loop_eq:
  "term_loop c md ts (sc, hl) =
     (sc + (\<Sum>t\<leftarrow>ts. (if str_includes c t then 1 else 0) + (if str_includes md t then 0.5 else 0)),
      hl @ filter (str_includes c) ts)"
  by (induction ts arbitrary: sc hl) (simp_all add: algebra_simps)

lemma tag_loop_eq:
  "tag_loop terms tgs (sc, hl) =
     (sc + 0.8 * real (length (filter (\<lambda>tag. \<exists>t \<in> set terms. str_includes (toLowerCase tag) t) tgs)),
      hl @ filter (\<lambda>tag. \<exists>t \<in> set terms. str_includes (toLowerCase tag) t) tgs)"
  by (induction tgs arbitrary: sc hl) (simp_all add: algebra_simps)

lemma text_match_eq:
  "text_match E terms m =
     (text_score E terms m,
      filter (str_includes (toLowerCase (content m))) terms @ matching_tags terms m)"
  by (simp add: text_match_def term_loop_eq tag_loop_eq text_score_def matching_tags_def)

lemma text_score_nonneg: "0 \<le> text_score E terms m"
proof -
  have "0 \<le> (\<Sum>t\<leftarrow>terms. (if str_includes c t then 1 else 0)
                + (if str_includes md t then (0.5::real) else 0))" for c md
    by (induction terms) simp_all
  then show ?thesis
    by (simp add: text_score_def)
qed

lemma text_search_loop_eq:
  "text_search_loop E terms table =
     map (\<lambda>m. \<lparr> entry = m, score = text_score E terms m / real (length terms),
                relevance = text_score E terms m / real (length terms), matchType = Exact,
                highlights = filter (str_includes (toLowerCase (content m))) terms
                             @ matching_tags terms m \<rparr>)
         (filter (\<lambda>m. text_score E terms m \<noteq> 0) table)"
proof (induction table)
  case Nil
  then show ?case by simp
next
  case (Cons m table)
  have "text_score E terms m > 0 \<longleftrightarrow> text_score E terms m \<noteq> 0"
    using text_score_nonneg [of E terms m] by linarith
  with Cons show ?case
    by (simp add: text_match_eq)
qed

lemma split_ws_nonempty: "split_loop gap cur s \<noteq> []"
  by (induction s arbitrary: gap cur) simp_all

text \<open>
  Claim C4, amended. The text search returns, in table order, the entries whose score is
  not 0; the score is the sum over the terms of 1 for a term found in the lower-cased
  content and 0.5 for a term found in the lower-cased serialised metadata, plus 0.8 for
  every tag that contains at least one term, divided by the number of terms (never 0).
\<close>

theorem performTextSearch_scores:
  "performTextSearch E text table =
     map (\<lambda>m. \<lparr> entry = m,
                score = text_score E (split_ws (toLowerCase text)) m
                          / real (length (split_ws (toLowerCase text))),
                relevance = text_score E (split_ws (toLowerCase text)) m
                          / real (length (split_ws (toLowerCase text))),
                matchType = Exact,
                highlights = filter (str_includes (toLowerCase (content m)))
                               (split_ws (toLowerCase text))
                             @ matching_tags (split_ws (toLowerCase text)) m \<rparr>)
         (filter (\<lambda>m. text_score E (split_ws (toLowerCase text)) m \<noteq> 0) table) \<and>
   length (split_ws (toLowerCase text)) > 0"
  by (simp add: performTextSearch_def text_search_loop_eq split_ws_def split_ws_nonempty)

lemma terms_x_z: "split_ws (toLowerCase ''x z'') = [''x'', ''z'']"
  by (simp add: split_ws_def toLowerCase_def toLowerCase_char_def is_space_def)

text \<open>
  For the query \<open>x z\<close> and an entry whose only tag and keyword is \<open>xz\<close>, the code
  adds 0.8 once for the tag (score 0.9); counting 0.8 per term the tag contains gives 1.3.
\<close>

theorem performTextSearch_scores_counterexample:
  "map score (performTextSearch (example_runtime False) ''x z''
                [with_keywords [''xz''] (example_entry ''e1'' 1 0 0)]) = [9 / 10] \<and>
   claimed_text_score (example_runtime False) (split_ws (toLowerCase ''x z''))
       (with_keywords [''xz''] (example_entry ''e1'' 1 0 0))
     / real (length (split_ws (toLowerCase ''x z''))) = 13 / 10"
proof -
  have js: "toLowerCase (JSON_stringify (example_runtime False)
               (metadata (with_keywords [''xz''] (example_entry ''e1'' 1 0 0))))
            = ''{'' @ json_string ''source'' @ '':'' @ json_string ''user-input'' @ '','' @
     json_string ''filereferences'' @ '':[],'' @ json_string ''codereferences'' @ '':[],'' @
     json_string ''entities'' @ '':[],'' @
     json_string ''summary'' @ '':'' @ json_string [] @ '','' @
     json_string ''keywords'' @ '':['' @ json_string ''xz'' @ ''],'' @
     json_string ''confidence'' @ '':1}''"
    by (simp add: example_runtime_def example_stringify_def with_keywords_def example_entry_def
        example_metadata_def json_string_def toLowerCase_def toLowerCase_char_def)
  have inx: "str_includes (toLowerCase (JSON_stringify (example_runtime False)
               (metadata (with_keywords [''xz''] (example_entry ''e1'' 1 0 0))))) ''x''"
    unfolding js by (simp add: json_string_def)
  have inz: "str_includes (toLowerCase (JSON_stringify (example_runtime False)
               (metadata (with_keywords [''xz''] (example_entry ''e1'' 1 0 0))))) ''z''"
    unfolding js by (simp add: json_string_def)
  have c: "content (with_keywords [''xz''] (example_entry ''e1'' 1 0 0)) = []"
    and t: "tags (with_keywords [''xz''] (example_entry ''e1'' 1 0 0)) = [''xz'']"
    by (simp_all add: with_keywords_def example_entry_def)
  have l: "toLowerCase [] = []" "toLowerCase ''xz'' = ''xz''"
    by (simp_all add: toLowerCase_def toLowerCase_char_def)
  have code: "text_score (example_runtime False) [''x'', ''z'']
                 (with_keywords [''xz''] (example_entry ''e1'' 1 0 0)) = 9 / 5"
    by (simp add: text_score_def matching_tags_def inx inz c t l)
  have spec: "claimed_text_score (example_runtime False) [''x'', ''z'']
                 (with_keywords [''xz''] (example_entry ''e1'' 1 0 0)) = 13 / 5"
    by (simp add: claimed_text_score_def inx inz c t l)
  show ?thesis
    by (simp add: performTextSearch_def text_search_loop_eq terms_x_z code spec)
qed

section \<open>Access bookkeeping of a search\<close>




























section \<open>A search that matches one entry by text and by similarity\<close>










end
